theory Spec2Isabelle
  imports Complex_Main "HOL-Library.AList"
begin

section \<open>Cells, coordinate keys and grids (types.ts)\<close>

text \<open>
  A cell is the three-field object of \<open>CellSchema\<close>. A grid (\<open>CanvasData\<close>) is a
  JavaScript object used as a sparse dictionary from the key string \<open>"x,y"\<close> to a cell:
  here the list of its entries in property order. Reading a property is \<open>map_of\<close>,
  assigning one is \<open>AList.update\<close> (an existing key keeps its place, a new key goes to
  the end) and \<open>delete\<close> is \<open>AList.delete\<close>.
  The key string built by \<open>createCellKey\<close> is represented by the pair of integers it
  encodes, on which \<open>parseCellKey\<close> is the inverse; coordinates are integers.
\<close>

record Cell =
  char :: string
  color :: string
  bgColor :: string

definition EMPTY_CELL :: Cell where
  "EMPTY_CELL = \<lparr>char = '' '', color = ''#FFFFFF'', bgColor = ''transparent''\<rparr>"

type_synonym CellKey = "int \<times> int"

type_synonym CanvasData = "(CellKey \<times> Cell) list"

definition createCellKey :: "int \<Rightarrow> int \<Rightarrow> CellKey" where
  "createCellKey x y = (x, y)"

definition parseCellKey :: "CellKey \<Rightarrow> int \<times> int" where
  "parseCellKey key = key"

definition isInBounds :: "int \<Rightarrow> int \<Rightarrow> int \<Rightarrow> int \<Rightarrow> bool" where
  "isInBounds x y w h = (x \<ge> 0 \<and> x < w \<and> y \<ge> 0 \<and> y < h)"

text \<open>The test \<open>cell.char === ' ' && cell.color === '#FFFFFF' && cell.bgColor === 'transparent'\<close>
  that every writer computes into its local \<open>isEmpty\<close>.\<close>

definition isEmpty :: "Cell \<Rightarrow> bool" where
  "isEmpty cell = (char cell = '' '' \<and> color cell = ''#FFFFFF'' \<and> bgColor cell = ''transparent'')"

text \<open>The statement \<open>if (isEmpty) delete d[key]; else d[key] = { ...cell }\<close>.\<close>

definition writeCell :: "CanvasData \<Rightarrow> CellKey \<Rightarrow> Cell \<Rightarrow> CanvasData" where
  "writeCell d key cell = (if isEmpty cell then AList.delete key d else AList.update key cell d)"

text \<open>The statement \<open>if (previousCell) d[key] = previousCell; else delete d[key]\<close> of the
  single-cell undo closures; a cell object is always truthy.\<close>

definition restoreCell :: "CanvasData \<Rightarrow> CellKey \<Rightarrow> Cell option \<Rightarrow> CanvasData" where
  "restoreCell d key previousCell =
     (case previousCell of Some c \<Rightarrow> AList.update key c d | None \<Rightarrow> AList.delete key d)"

text \<open>The clipping loop of \<open>resizeCanvas\<close>: an entry is kept iff \<open>x < width && y < height\<close>.\<close>

definition clipData :: "int \<Rightarrow> int \<Rightarrow> CanvasData \<Rightarrow> CanvasData" where
  "clipData w h d =
     filter (\<lambda>(key, cell). case parseCellKey key of (x, y) \<Rightarrow> x < w \<and> y < h) d"

section \<open>JavaScript array helpers\<close>

text \<open>\<open>xs[i]\<close>: \<open>undefined\<close> (here \<open>None\<close>) outside the array.\<close>

definition nth_opt :: "'a list \<Rightarrow> int \<Rightarrow> 'a option" where
  "nth_opt xs i = (if 0 \<le> i \<and> i < int (length xs) then Some (xs ! nat i) else None)"

text \<open>The start index of \<open>Array.prototype.splice\<close>: a negative start counts from the end,
  and the result is clamped to the array.\<close>

definition splice_start :: "'a list \<Rightarrow> int \<Rightarrow> nat" where
  "splice_start xs start =
     (if start < 0 then nat (max (int (length xs) + start) 0) else nat (min start (int (length xs))))"

text \<open>\<open>xs.splice(start, 0, x)\<close>.\<close>

definition splice_insert :: "int \<Rightarrow> 'a \<Rightarrow> 'a list \<Rightarrow> 'a list" where
  "splice_insert start x xs = take (splice_start xs start) xs @ [x] @ drop (splice_start xs start) xs"

text \<open>\<open>xs.splice(start, 1)\<close>: removes nothing when the clamped start is the length.\<close>

definition splice_remove :: "int \<Rightarrow> 'a list \<Rightarrow> 'a list" where
  "splice_remove start xs = take (splice_start xs start) xs @ drop (Suc (splice_start xs start)) xs"

text \<open>\<open>xs.slice(0, n)\<close>.\<close>

definition slice0 :: "int \<Rightarrow> 'a list \<Rightarrow> 'a list" where
  "slice0 n xs = (if n < 0 then take (nat (int (length xs) + n)) xs else take (nat n) xs)"

text \<open>Decimal rendering of a non-negative integer inside a template string.\<close>

fun digits :: "nat \<Rightarrow> string" where
  "digits n = (if n < 10 then [char_of (48 + n)] else digits (n div 10) @ [char_of (48 + n mod 10)])"

declare digits.simps [simp del]

section \<open>Frames, layers and the object store\<close>

text \<open>
  Frames, content frames and grids are mutable JavaScript objects that the history
  closures capture by reference. They live in a store: a frame is named by its address
  in \<open>frameHeap\<close>, a content frame by its address in \<open>cfHeap\<close>, a grid by its address in
  \<open>dataHeap\<close>. The field \<open>frame_data\<close> is \<open>None\<close> when the property holds \<open>undefined\<close>.
\<close>

record Frame =
  frame_id :: string
  frame_name :: string
  frame_duration :: real
  frame_data :: "nat option"

record MCPContentFrame =
  cf_id :: string
  cf_name :: string
  startFrame :: int
  durationFrames :: int
  cf_data :: nat
  hidden :: "bool option"

datatype EasingType = Linear | Hold | EaseIn | EaseOut | EaseInOut
  | EaseOutBack | EaseInBack | Bounce | Custom

record EasingCurve =
  easing_type :: EasingType
  x1 :: "real option"
  y1 :: "real option"
  x2 :: "real option"
  y2 :: "real option"

datatype PropertyPath = position_x | position_y | scale_x | scale_y | rotation
  | anchorPoint_x | anchorPoint_y

text \<open>Keyframe values are the numbers that \<open>addKeyframe\<close> stores (\<open>value: number\<close>).\<close>

record MCPKeyframe =
  kf_id :: string
  kf_frame :: int
  kf_value :: real
  easing :: EasingCurve

record MCPPropertyTrack =
  track_id :: string
  propertyPath :: PropertyPath
  keyframes :: "MCPKeyframe list"
  loopKeyframes :: bool

record MCPLayer =
  layer_id :: string
  layer_name :: string
  visible :: bool
  solo :: bool
  locked :: bool
  opacity :: real
  contentFrames :: "nat list"
  propertyTracks :: "MCPPropertyTrack list"
  staticProperties :: "(PropertyPath \<times> real) list"
  parentGroupId :: "string option"

record MCPLayerGroup =
  group_id :: string
  group_name :: string
  childLayerIds :: "string list"
  group_visible :: bool
  group_solo :: bool
  group_locked :: bool
  collapsed :: bool

record TimelineConfig =
  tl_frameRate :: real
  tl_durationFrames :: int

record ToolState =
  activeTool :: string
  selectedColor :: string
  selectedBgColor :: string
  selectedCharacter :: string
  paintBucketContiguous :: bool
  rectangleFilled :: bool

record TypographySettings =
  fontSize :: real
  characterSpacing :: real
  lineSpacing :: real
  selectedFontId :: string

datatype Selection = RectangleSelection "int \<times> int" "int \<times> int" | CellSetSelection "CellKey list"

section \<open>History entries\<close>

text \<open>
  A history entry is a pair of closures \<open>undo\<close>, \<open>redo\<close>. Each constructor below is one
  of the closure pairs that the engine creates, with the variables it captures: object
  references as store addresses, copied grids and cells as values. The fields
  \<open>description\<close> and \<open>timestamp\<close> are read by no modelled operation and are left out; the
  field \<open>type\<close> is the constructor.
\<close>

datatype HistoryEntry =
    SetCellLayer nat CellKey "Cell option" Cell
  | SetCellLegacy nat CellKey "Cell option" Cell
  | SetCellsLayer nat CanvasData CanvasData
  | SetCellsLegacy nat nat nat
  | ClearCanvasLayer nat CanvasData
  | ClearCanvasLegacy nat nat
  | ResizeCanvas int int int int "nat list"
  | FillRegion nat CanvasData CanvasData
  | AddFrame int nat
  | DeleteFrame int nat int
  | DuplicateFrame int nat
  | SetFrameDuration nat real real
  | SetFrameName nat string string

section \<open>Project state (state.ts)\<close>

record ProjectState =
  name :: string
  description :: string
  filePath :: "string option"
  isDirty :: bool
  width :: int
  height :: int
  backgroundColor :: string
  showGrid :: bool
  frames :: "nat list"
  currentFrameIndex :: int
  frameRate :: real
  looping :: bool
  layers :: "MCPLayer list"
  layerGroups :: "MCPLayerGroup list"
  activeLayerId :: "string option"
  timelineConfig :: TimelineConfig
  toolState :: ToolState
  typography :: TypographySettings
  selection :: "Selection option"
  historyStack :: "HistoryEntry list"
  historyIndex :: int
  maxHistorySize :: int
  frameHeap :: "nat \<Rightarrow> Frame"
  cfHeap :: "nat \<Rightarrow> MCPContentFrame"
  dataHeap :: "nat \<Rightarrow> CanvasData"
  nextFrame :: nat
  nextCf :: nat
  nextData :: nat

text \<open>What a call does besides changing the state: it returns a value or throws.\<close>

datatype error = TypeError | ZodError

datatype 'a completion = Normal 'a | Throws error

definition DEFAULT_FRAME_DURATION :: real where
  "DEFAULT_FRAME_DURATION = 100"

text \<open>Allocation of a new grid object and of a new frame object.\<close>

definition allocData :: "CanvasData \<Rightarrow> ProjectState \<Rightarrow> nat \<times> ProjectState" where
  "allocData d s = (nextData s, s\<lparr>dataHeap := (dataHeap s)(nextData s := d), nextData := Suc (nextData s)\<rparr>)"

definition allocFrame :: "Frame \<Rightarrow> ProjectState \<Rightarrow> nat \<times> ProjectState" where
  "allocFrame f s =
     (nextFrame s, s\<lparr>frameHeap := (frameHeap s)(nextFrame s := f), nextFrame := Suc (nextFrame s)\<rparr>)"

definition createDefaultFrame :: "string \<Rightarrow> nat \<Rightarrow> Frame" where
  "createDefaultFrame newId d =
     \<lparr>frame_id = newId, frame_name = ''Frame 1'', frame_duration = DEFAULT_FRAME_DURATION,
      frame_data = Some d\<rparr>"

text \<open>What an address holds before an object is allocated there.\<close>

definition noFrame :: Frame where
  "noFrame = \<lparr>frame_id = '''', frame_name = '''', frame_duration = 0, frame_data = None\<rparr>"

definition noContentFrame :: MCPContentFrame where
  "noContentFrame = \<lparr>cf_id = '''', cf_name = '''', startFrame = 0, durationFrames = 1,
     cf_data = 0, hidden = None\<rparr>"

text \<open>\<open>createDefaultState\<close>, with the identifier that \<open>generateFrameId\<close> returns as an
  argument. The state object is new, so nothing of an earlier document is reachable from
  it and the store starts afresh: the default frame is frame object 0 and its grid is
  grid object 0.\<close>

definition createDefaultState :: "string \<Rightarrow> ProjectState" where
  "createDefaultState newId =
     \<lparr>name = ''Untitled Project'', description = '''', filePath = None, isDirty = False,
      width = 80, height = 24, backgroundColor = ''#000000'', showGrid = True,
      frames = [0], currentFrameIndex = 0, frameRate = 12, looping = True,
      layers = [], layerGroups = [], activeLayerId = None,
      timelineConfig = \<lparr>tl_frameRate = 12, tl_durationFrames = 12\<rparr>,
      toolState = \<lparr>activeTool = ''pencil'', selectedColor = ''#FFFFFF'',
        selectedBgColor = ''transparent'', selectedCharacter = ''@'',
        paintBucketContiguous = True, rectangleFilled = False\<rparr>,
      typography = \<lparr>fontSize = 16, characterSpacing = 0, lineSpacing = 0,
        selectedFontId = ''jetbrains-mono''\<rparr>,
      selection = None,
      historyStack = [], historyIndex = - 1, maxHistorySize = 100,
      frameHeap = (\<lambda>_. noFrame)(0 := createDefaultFrame newId 0),
      cfHeap = (\<lambda>_. noContentFrame),
      dataHeap = (\<lambda>_. []),
      nextFrame = 1, nextCf = 0, nextData = 1\<rparr>"

definition isLayerMode :: "ProjectState \<Rightarrow> bool" where
  "isLayerMode s = (length (layers s) > 0)"

definition getCurrentFrame :: "ProjectState \<Rightarrow> nat option" where
  "getCurrentFrame s = nth_opt (frames s) (currentFrameIndex s)"

section \<open>History operations\<close>

definition pushHistory :: "HistoryEntry \<Rightarrow> ProjectState \<Rightarrow> ProjectState" where
  "pushHistory entry s =
     (let stack1 = (if historyIndex s < int (length (historyStack s)) - 1
                    then slice0 (historyIndex s + 1) (historyStack s) else historyStack s);
          stack2 = stack1 @ [entry];
          index2 = int (length stack2) - 1
      in if int (length stack2) > maxHistorySize s
         then s\<lparr>historyStack := tl stack2, historyIndex := index2 - 1\<rparr>
         else s\<lparr>historyStack := stack2, historyIndex := index2\<rparr>)"

definition canUndo :: "ProjectState \<Rightarrow> bool" where
  "canUndo s = (historyIndex s \<ge> 0)"

definition canRedo :: "ProjectState \<Rightarrow> bool" where
  "canRedo s = (historyIndex s < int (length (historyStack s)) - 1)"

section \<open>Layer access\<close>

text \<open>\<open>getActiveLayer\<close>: the empty string is falsy, so \<open>!this.state.activeLayerId\<close> holds
  for it as for \<open>null\<close>.\<close>

definition getActiveLayer :: "ProjectState \<Rightarrow> MCPLayer option" where
  "getActiveLayer s =
     (case activeLayerId s of None \<Rightarrow> None
      | Some i \<Rightarrow> if i = [] then None else find (\<lambda>l. layer_id l = i) (layers s))"

definition getContentFrameAtTime :: "ProjectState \<Rightarrow> MCPLayer \<Rightarrow> int \<Rightarrow> nat option" where
  "getContentFrameAtTime s layer frame =
     find (\<lambda>cf. hidden (cfHeap s cf) \<noteq> Some True
              \<and> frame \<ge> startFrame (cfHeap s cf)
              \<and> frame < startFrame (cfHeap s cf) + durationFrames (cfHeap s cf))
       (contentFrames layer)"

definition getActiveContentFrame :: "ProjectState \<Rightarrow> nat option" where
  "getActiveContentFrame s =
     (case getActiveLayer s of None \<Rightarrow> None
      | Some layer \<Rightarrow> getContentFrameAtTime s layer (currentFrameIndex s))"

section \<open>Canvas operations\<close>

text \<open>Assignment to \<open>frame.data\<close>, and replacement of the whole contents of a grid object
  in place (\<open>Object.keys(d).forEach(k => delete d[k]); Object.assign(d, g)\<close>, or a single
  write to it).\<close>

definition setFrameData :: "nat \<Rightarrow> nat option \<Rightarrow> ProjectState \<Rightarrow> ProjectState" where
  "setFrameData fr v s = s\<lparr>frameHeap := (frameHeap s)(fr := (frameHeap s fr)\<lparr>frame_data := v\<rparr>)\<rparr>"

definition setData :: "nat \<Rightarrow> CanvasData \<Rightarrow> ProjectState \<Rightarrow> ProjectState" where
  "setData d g s = s\<lparr>dataHeap := (dataHeap s)(d := g)\<rparr>"

text \<open>The object spread \<open>{ ...frame.data }\<close>: the spread of \<open>undefined\<close> is empty.\<close>

definition spreadData :: "ProjectState \<Rightarrow> nat option \<Rightarrow> CanvasData" where
  "spreadData s v = (case v of None \<Rightarrow> [] | Some d \<Rightarrow> dataHeap s d)"

definition getCell :: "int \<Rightarrow> int \<Rightarrow> ProjectState \<Rightarrow> Cell completion" where
  "getCell x y s =
     (if \<not> isInBounds x y (width s) (height s) then Normal EMPTY_CELL
      else if isLayerMode s then
        (case getActiveContentFrame s of None \<Rightarrow> Normal EMPTY_CELL
         | Some cf \<Rightarrow> (case map_of (dataHeap s (cf_data (cfHeap s cf))) (createCellKey x y) of
             None \<Rightarrow> Normal EMPTY_CELL | Some c \<Rightarrow> Normal c))
      else
        (case getCurrentFrame s of None \<Rightarrow> Throws TypeError
         | Some fr \<Rightarrow> (case frame_data (frameHeap s fr) of None \<Rightarrow> Throws TypeError
             | Some d \<Rightarrow> (case map_of (dataHeap s d) (createCellKey x y) of
                 None \<Rightarrow> Normal EMPTY_CELL | Some c \<Rightarrow> Normal c))))"

definition setCell :: "int \<Rightarrow> int \<Rightarrow> Cell \<Rightarrow> bool \<Rightarrow> ProjectState \<Rightarrow> bool completion \<times> ProjectState" where
  "setCell x y cell recordHistory s =
     (if \<not> isInBounds x y (width s) (height s) then (Normal False, s)
      else if isLayerMode s then
        (case getActiveLayer s of None \<Rightarrow> (Normal False, s)
         | Some layer \<Rightarrow>
             if locked layer then (Normal False, s)
             else (case getActiveContentFrame s of None \<Rightarrow> (Normal False, s)
               | Some cf \<Rightarrow>
                   let key = createCellKey x y;
                       d = cf_data (cfHeap s cf);
                       previousCell = map_of (dataHeap s d) key;
                       s1 = (if recordHistory then pushHistory (SetCellLayer cf key previousCell cell) s else s);
                       s2 = setData d (writeCell (dataHeap s1 d) key cell) s1
                   in (Normal True, s2\<lparr>isDirty := True\<rparr>)))
      else
        (case getCurrentFrame s of None \<Rightarrow> (Throws TypeError, s)
         | Some fr \<Rightarrow> (case frame_data (frameHeap s fr) of None \<Rightarrow> (Throws TypeError, s)
             | Some d \<Rightarrow>
                 let key = createCellKey x y;
                     previousCell = map_of (dataHeap s d) key;
                     s1 = (if recordHistory then pushHistory (SetCellLegacy fr key previousCell cell) s else s);
                     s2 = setData d (writeCell (dataHeap s1 d) key cell) s1
                 in (Normal True, s2\<lparr>isDirty := True\<rparr>))))"

text \<open>The loop of \<open>setCells\<close> over the cells, on the contents of the target grid: it
  returns the new contents and \<open>count\<close>.\<close>

fun setCellsLoop :: "int \<Rightarrow> int \<Rightarrow> (int \<times> int \<times> Cell) list \<Rightarrow> CanvasData \<Rightarrow> nat \<Rightarrow> CanvasData \<times> nat" where
  "setCellsLoop w h [] d count = (d, count)"
| "setCellsLoop w h ((x, y, cell) # rest) d count =
     (if \<not> isInBounds x y w h then setCellsLoop w h rest d count
      else setCellsLoop w h rest (writeCell d (createCellKey x y) cell) (Suc count))"

definition setCells :: "(int \<times> int \<times> Cell) list \<Rightarrow> bool \<Rightarrow> ProjectState \<Rightarrow> nat completion \<times> ProjectState" where
  "setCells cells recordHistory s =
     (if isLayerMode s then
        (case getActiveLayer s of None \<Rightarrow> (Normal 0, s)
         | Some layer \<Rightarrow>
             if locked layer then (Normal 0, s)
             else (case getActiveContentFrame s of None \<Rightarrow> (Normal 0, s)
               | Some cf \<Rightarrow>
                   let d = cf_data (cfHeap s cf);
                       previousData = dataHeap s d
                   in (case setCellsLoop (width s) (height s) cells previousData 0 of
                         (newGrid, count) \<Rightarrow>
                           let s1 = setData d newGrid s;
                               s2 = (if recordHistory \<and> count > 0
                                     then pushHistory (SetCellsLayer cf previousData newGrid) s1 else s1);
                               s3 = (if count > 0 then s2\<lparr>isDirty := True\<rparr> else s2)
                           in (Normal count, s3))))
      else
        (case getCurrentFrame s of None \<Rightarrow> (Throws TypeError, s)
         | Some fr \<Rightarrow> (case frame_data (frameHeap s fr) of
               None \<Rightarrow>
                 if list_ex (\<lambda>(x, y, cell). isInBounds x y (width s) (height s)) cells
                 then (Throws TypeError, s) else (Normal 0, s)
             | Some d \<Rightarrow>
                 (case allocData (dataHeap s d) s of (previousData, s0) \<Rightarrow>
                    (case setCellsLoop (width s0) (height s0) cells (dataHeap s0 d) 0 of
                       (newGrid, count) \<Rightarrow>
                         let s1 = setData d newGrid s0
                         in if recordHistory \<and> count > 0
                            then (case allocData newGrid s1 of (newDataCopy, s2) \<Rightarrow>
                                    (Normal count,
                                     (pushHistory (SetCellsLegacy fr previousData newDataCopy) s2)\<lparr>isDirty := True\<rparr>))
                            else (Normal count, if count > 0 then s1\<lparr>isDirty := True\<rparr> else s1))))))"

definition clearCell :: "int \<Rightarrow> int \<Rightarrow> bool \<Rightarrow> ProjectState \<Rightarrow> bool completion \<times> ProjectState" where
  "clearCell x y recordHistory s = setCell x y EMPTY_CELL recordHistory s"

definition clearCanvas :: "bool \<Rightarrow> ProjectState \<Rightarrow> unit completion \<times> ProjectState" where
  "clearCanvas recordHistory s =
     (if isLayerMode s then
        (case getActiveLayer s of None \<Rightarrow> (Normal (), s)
         | Some layer \<Rightarrow>
             if locked layer then (Normal (), s)
             else (case getActiveContentFrame s of None \<Rightarrow> (Normal (), s)
               | Some cf \<Rightarrow>
                   let d = cf_data (cfHeap s cf);
                       previousData = dataHeap s d;
                       s1 = (if recordHistory then pushHistory (ClearCanvasLayer cf previousData) s else s);
                       s2 = setData d [] s1
                   in (Normal (), s2\<lparr>isDirty := True\<rparr>)))
      else
        (case getCurrentFrame s of None \<Rightarrow> (Throws TypeError, s)
         | Some fr \<Rightarrow>
             (case allocData (spreadData s (frame_data (frameHeap s fr))) s of (previousData, s0) \<Rightarrow>
                let s1 = (if recordHistory then pushHistory (ClearCanvasLegacy fr previousData) s0 else s0)
                in (case allocData [] s1 of (fresh, s2) \<Rightarrow>
                      (Normal (), (setFrameData fr (Some fresh) s2)\<lparr>isDirty := True\<rparr>)))))"

text \<open>\<open>this.state.frames.map(f => ({ ...f.data }))\<close>: one new grid object per frame.\<close>

fun copyFrameData :: "nat list \<Rightarrow> ProjectState \<Rightarrow> nat list \<times> ProjectState" where
  "copyFrameData [] s = ([], s)"
| "copyFrameData (fr # rest) s =
     (case allocData (spreadData s (frame_data (frameHeap s fr))) s of (r, s1) \<Rightarrow>
        (case copyFrameData rest s1 of (rs, s2) \<Rightarrow> (r # rs, s2)))"

text \<open>The \<open>forEach\<close> that clips every frame: \<open>Object.entries(frame.data)\<close> throws on
  \<open>undefined\<close>, leaving the frames before it clipped.\<close>

fun clipFrames :: "int \<Rightarrow> int \<Rightarrow> nat list \<Rightarrow> ProjectState \<Rightarrow> unit completion \<times> ProjectState" where
  "clipFrames w h [] s = (Normal (), s)"
| "clipFrames w h (fr # rest) s =
     (case frame_data (frameHeap s fr) of None \<Rightarrow> (Throws TypeError, s)
      | Some d \<Rightarrow> (case allocData (clipData w h (dataHeap s d)) s of (r, s1) \<Rightarrow>
          clipFrames w h rest (setFrameData fr (Some r) s1)))"

text \<open>The \<open>forEach\<close> of the resize undo: \<open>frame.data = previousFrameData[i]\<close>.\<close>

fun restoreFrameData :: "nat list \<Rightarrow> nat list \<Rightarrow> int \<Rightarrow> ProjectState \<Rightarrow> ProjectState" where
  "restoreFrameData [] previousFrameData i s = s"
| "restoreFrameData (fr # rest) previousFrameData i s =
     restoreFrameData rest previousFrameData (i + 1) (setFrameData fr (nth_opt previousFrameData i) s)"

definition clamp :: "int \<Rightarrow> int \<Rightarrow> int \<Rightarrow> int" where
  "clamp lo hi v = max lo (min hi v)"

definition resizeCanvas :: "int \<Rightarrow> int \<Rightarrow> bool \<Rightarrow> ProjectState \<Rightarrow> unit completion \<times> ProjectState" where
  "resizeCanvas width0 height0 recordHistory s =
     (let previousWidth = width s;
          previousHeight = height s;
          w = clamp 4 200 width0;
          h = clamp 4 100 height0
      in (case copyFrameData (frames s) s of (previousFrameData, s0) \<Rightarrow>
            let s1 = (if recordHistory
                      then pushHistory (ResizeCanvas previousWidth previousHeight w h previousFrameData) s0
                      else s0)
            in (case clipFrames w h (frames s1) (s1\<lparr>width := w, height := h\<rparr>) of
                  (Throws e, s2) \<Rightarrow> (Throws e, s2)
                | (Normal u, s2) \<Rightarrow> (Normal (), s2\<lparr>isDirty := True\<rparr>))))"


section \<open>Fill operations\<close>

record FillOptions =
  contiguous :: "bool option"
  matchChar :: "bool option"
  matchColor :: "bool option"
  matchBgColor :: "bool option"

text \<open>The closure \<open>matches\<close>, with the three destructured flags and \<open>targetCell\<close> that it
  captures.\<close>

definition matches :: "bool \<Rightarrow> bool \<Rightarrow> bool \<Rightarrow> Cell \<Rightarrow> Cell \<Rightarrow> bool" where
  "matches mChar mColor mBgColor targetCell cell =
     (if mChar \<and> char cell \<noteq> char targetCell then False
      else if mColor \<and> color cell \<noteq> color targetCell then False
      else if mBgColor \<and> bgColor cell \<noteq> bgColor targetCell then False
      else True)"

text \<open>\<open>Set.prototype.add\<close> on a set kept as the list of its elements in insertion order.\<close>

definition setAdd :: "'a \<Rightarrow> 'a list \<Rightarrow> 'a list" where
  "setAdd k ks = (if k \<in> set ks then ks else ks @ [k])"

text \<open>
  The \<open>while (queue.length > 0)\<close> loop of the contiguous branch. Its arguments are the
  canvas size, \<open>getCell\<close> and \<open>matches\<close> on the unchanged state, and the loop variables
  \<open>queue\<close>, \<open>visited\<close> and \<open>cellsToFill\<close>. The result is \<open>None\<close> if the loop never
  exits; otherwise the final \<open>cellsToFill\<close>, or the error that \<open>getCell\<close> threw.
\<close>

partial_function (option) floodLoop ::
  "int \<Rightarrow> int \<Rightarrow> (int \<Rightarrow> int \<Rightarrow> Cell completion) \<Rightarrow> (Cell \<Rightarrow> bool) \<Rightarrow> (int \<times> int) list
     \<Rightarrow> CellKey list \<Rightarrow> CellKey list \<Rightarrow> CellKey list completion option" where
  "floodLoop w h getc m queue visited cellsToFill =
     (case queue of
        [] \<Rightarrow> Some (Normal cellsToFill)
      | (x, y) # rest \<Rightarrow>
          if createCellKey x y \<in> set visited then floodLoop w h getc m rest visited cellsToFill
          else if \<not> isInBounds x y w h then floodLoop w h getc m rest visited cellsToFill
          else (case getc x y of
                  Throws e \<Rightarrow> Some (Throws e)
                | Normal currentCell \<Rightarrow>
                    if \<not> m currentCell
                    then floodLoop w h getc m rest (setAdd (createCellKey x y) visited) cellsToFill
                    else floodLoop w h getc m
                           (rest @ [(x - 1, y), (x + 1, y), (x, y - 1), (x, y + 1)])
                           (setAdd (createCellKey x y) visited)
                           (setAdd (createCellKey x y) cellsToFill)))"

declare floodLoop.simps [code]

text \<open>The two nested \<open>for\<close> loops of the non-contiguous branch, over the coordinates in
  the order the loops visit them.\<close>

fun scanLoop :: "(int \<Rightarrow> int \<Rightarrow> Cell completion) \<Rightarrow> (Cell \<Rightarrow> bool) \<Rightarrow> (int \<times> int) list
     \<Rightarrow> CellKey list \<Rightarrow> CellKey list completion" where
  "scanLoop getc m [] cellsToFill = Normal cellsToFill"
| "scanLoop getc m ((x, y) # rest) cellsToFill =
     (case getc x y of
        Throws e \<Rightarrow> Throws e
      | Normal c \<Rightarrow> scanLoop getc m rest (if m c then setAdd (createCellKey x y) cellsToFill else cellsToFill))"

definition scanOrder :: "int \<Rightarrow> int \<Rightarrow> (int \<times> int) list" where
  "scanOrder w h = concat (map (\<lambda>y. map (\<lambda>x. (x, y)) [0..w - 1]) [0..h - 1])"

text \<open>The part of \<open>fillRegion\<close> after the traversal: it writes \<open>fillCell\<close> to every key of
  \<open>cellsToFill\<close> in the target grid, records one entry and returns the size of the set.\<close>

definition fillTarget :: "ProjectState \<Rightarrow> nat option completion" where
  "fillTarget s =
     (if isLayerMode s
      then (case getActiveContentFrame s of None \<Rightarrow> Normal None
            | Some cf \<Rightarrow> Normal (Some (cf_data (cfHeap s cf))))
      else (case getCurrentFrame s of None \<Rightarrow> Throws TypeError
            | Some fr \<Rightarrow> Normal (frame_data (frameHeap s fr))))"

definition fillCells :: "CellKey list \<Rightarrow> Cell \<Rightarrow> CanvasData \<Rightarrow> CanvasData" where
  "fillCells cellsToFill fillCell d = fold (\<lambda>key g. writeCell g key fillCell) cellsToFill d"

definition fillCommit :: "CellKey list \<Rightarrow> Cell \<Rightarrow> bool \<Rightarrow> ProjectState \<Rightarrow> nat completion \<times> ProjectState" where
  "fillCommit cellsToFill fillCell recordHistory s =
     (case fillTarget s of
        Throws e \<Rightarrow> (Throws e, s)
      | Normal None \<Rightarrow> (Normal 0, s)
      | Normal (Some dataTarget) \<Rightarrow>
          let previousData = dataHeap s dataTarget;
              newGrid = fillCells cellsToFill fillCell previousData;
              s1 = setData dataTarget newGrid s;
              s2 = (if recordHistory \<and> length cellsToFill > 0
                    then pushHistory (FillRegion dataTarget previousData newGrid) s1 else s1);
              s3 = (if length cellsToFill > 0 then s2\<lparr>isDirty := True\<rparr> else s2)
          in (Normal (length cellsToFill), s3))"

text \<open>\<open>fillRegion\<close>: \<open>None\<close> if the traversal never ends.\<close>

definition fillRegion ::
  "int \<Rightarrow> int \<Rightarrow> Cell \<Rightarrow> FillOptions \<Rightarrow> bool \<Rightarrow> ProjectState \<Rightarrow> (nat completion \<times> ProjectState) option" where
  "fillRegion startX startY fillCell options recordHistory s =
     (let contig = (case contiguous options of None \<Rightarrow> True | Some b \<Rightarrow> b);
          mChar = (case matchChar options of None \<Rightarrow> False | Some b \<Rightarrow> b);
          mColor = (case matchColor options of None \<Rightarrow> False | Some b \<Rightarrow> b);
          mBgColor = (case matchBgColor options of None \<Rightarrow> False | Some b \<Rightarrow> b)
      in (case getCell startX startY s of
            Throws e \<Rightarrow> Some (Throws e, s)
          | Normal targetCell \<Rightarrow>
              (case (if contig
                     then floodLoop (width s) (height s) (\<lambda>x y. getCell x y s)
                            (matches mChar mColor mBgColor targetCell) [(startX, startY)] [] []
                     else Some (scanLoop (\<lambda>x y. getCell x y s)
                            (matches mChar mColor mBgColor targetCell)
                            (scanOrder (width s) (height s)) []))
               of None \<Rightarrow> None
                | Some (Throws e) \<Rightarrow> Some (Throws e, s)
                | Some (Normal cellsToFill) \<Rightarrow> Some (fillCommit cellsToFill fillCell recordHistory s))))"

section \<open>Legacy frame operations\<close>

text \<open>The statement \<open>if (currentFrameIndex >= frames.length) currentFrameIndex =
  Math.max(0, frames.length - 1)\<close> that follows every removal of a frame.\<close>

definition reclampCurrentFrameIndex :: "ProjectState \<Rightarrow> ProjectState" where
  "reclampCurrentFrameIndex s =
     (if currentFrameIndex s \<ge> int (length (frames s))
      then s\<lparr>currentFrameIndex := max 0 (int (length (frames s)) - 1)\<rparr> else s)"

text \<open>\<open>addFrame\<close> returns the new frame object; \<open>newId\<close> is what \<open>generateFrameId\<close> returns.\<close>

definition addFrame ::
  "int option \<Rightarrow> CanvasData option \<Rightarrow> real option \<Rightarrow> bool \<Rightarrow> string \<Rightarrow> ProjectState \<Rightarrow> nat \<times> ProjectState" where
  "addFrame atIndex canvasData duration recordHistory newId s =
     (case allocData (case canvasData of Some d \<Rightarrow> d | None \<Rightarrow> []) s of (d, s0) \<Rightarrow>
        (case allocFrame \<lparr>frame_id = newId,
                 frame_name = ''Frame '' @ digits (length (frames s) + 1),
                 frame_duration = (case duration of Some v \<Rightarrow> v | None \<Rightarrow> DEFAULT_FRAME_DURATION),
                 frame_data = Some d\<rparr> s0 of (newFrame, s1) \<Rightarrow>
           let insertIndex = (case atIndex of Some i \<Rightarrow> i | None \<Rightarrow> int (length (frames s)));
               s2 = (if recordHistory then pushHistory (AddFrame insertIndex newFrame) s1 else s1)
           in (newFrame, s2\<lparr>frames := splice_insert insertIndex newFrame (frames s2), isDirty := True\<rparr>)))"

definition deleteFrame :: "int \<Rightarrow> bool \<Rightarrow> ProjectState \<Rightarrow> bool \<times> ProjectState" where
  "deleteFrame index recordHistory s =
     (if index < 0 \<or> index \<ge> int (length (frames s)) then (False, s)
      else if length (frames s) = 1 then (False, s)
      else
        let deletedFrame = frames s ! nat index;
            previousCurrentIndex = currentFrameIndex s;
            s1 = (if recordHistory then pushHistory (DeleteFrame index deletedFrame previousCurrentIndex) s else s);
            s2 = reclampCurrentFrameIndex (s1\<lparr>frames := splice_remove index (frames s1)\<rparr>)
        in (True, s2\<lparr>isDirty := True\<rparr>))"

definition duplicateFrame :: "int \<Rightarrow> bool \<Rightarrow> string \<Rightarrow> ProjectState \<Rightarrow> nat option \<times> ProjectState" where
  "duplicateFrame index recordHistory newId s =
     (if index < 0 \<or> index \<ge> int (length (frames s)) then (None, s)
      else
        let sourceFrame = frameHeap s (frames s ! nat index)
        in (case allocData (spreadData s (frame_data sourceFrame)) s of (d, s0) \<Rightarrow>
             (case allocFrame \<lparr>frame_id = newId, frame_name = frame_name sourceFrame @ '' (copy)'',
                      frame_duration = frame_duration sourceFrame, frame_data = Some d\<rparr> s0 of
                (newFrame, s1) \<Rightarrow>
                  let insertIndex = index + 1;
                      s2 = (if recordHistory then pushHistory (DuplicateFrame insertIndex newFrame) s1 else s1)
                  in (Some newFrame,
                      s2\<lparr>frames := splice_insert insertIndex newFrame (frames s2), isDirty := True\<rparr>))))"

definition goToFrame :: "int \<Rightarrow> ProjectState \<Rightarrow> bool \<times> ProjectState" where
  "goToFrame index s =
     (if isLayerMode s then
        (if index < 0 \<or> index \<ge> tl_durationFrames (timelineConfig s) then (False, s)
         else (True, s\<lparr>currentFrameIndex := index\<rparr>))
      else if index < 0 \<or> index \<ge> int (length (frames s)) then (False, s)
      else (True, s\<lparr>currentFrameIndex := index\<rparr>))"

definition setFrameDuration :: "int \<Rightarrow> real \<Rightarrow> bool \<Rightarrow> ProjectState \<Rightarrow> bool \<times> ProjectState" where
  "setFrameDuration index duration0 recordHistory s =
     (if index < 0 \<or> index \<ge> int (length (frames s)) then (False, s)
      else
        let duration = max 10 (min 60000 duration0);
            frame = frames s ! nat index;
            previousDuration = frame_duration (frameHeap s frame);
            s1 = (if recordHistory then pushHistory (SetFrameDuration frame previousDuration duration) s else s)
        in (True, s1\<lparr>frameHeap := (frameHeap s1)(frame := (frameHeap s1 frame)\<lparr>frame_duration := duration\<rparr>),
                     isDirty := True\<rparr>))"

definition setFrameName :: "int \<Rightarrow> string \<Rightarrow> bool \<Rightarrow> ProjectState \<Rightarrow> bool \<times> ProjectState" where
  "setFrameName index newName recordHistory s =
     (if index < 0 \<or> index \<ge> int (length (frames s)) then (False, s)
      else
        let frame = frames s ! nat index;
            previousName = frame_name (frameHeap s frame);
            s1 = (if recordHistory then pushHistory (SetFrameName frame previousName newName) s else s)
        in (True, s1\<lparr>frameHeap := (frameHeap s1)(frame := (frameHeap s1 frame)\<lparr>frame_name := newName\<rparr>),
                     isDirty := True\<rparr>))"

section \<open>Undo and redo\<close>

text \<open>The closure \<open>entry.undo\<close> of each kind of entry, run on the current state.\<close>

fun undoEntry :: "HistoryEntry \<Rightarrow> ProjectState \<Rightarrow> unit completion \<times> ProjectState" where
  "undoEntry (SetCellLayer cf key previousCell cell) s =
     (Normal (), setData (cf_data (cfHeap s cf))
                   (restoreCell (dataHeap s (cf_data (cfHeap s cf))) key previousCell) s)"
| "undoEntry (SetCellLegacy fr key previousCell cell) s =
     (case frame_data (frameHeap s fr) of None \<Rightarrow> (Throws TypeError, s)
      | Some d \<Rightarrow> (Normal (), setData d (restoreCell (dataHeap s d) key previousCell) s))"
| "undoEntry (SetCellsLayer cf previousData newGrid) s =
     (Normal (), setData (cf_data (cfHeap s cf)) previousData s)"
| "undoEntry (SetCellsLegacy fr previousData newDataCopy) s =
     (Normal (), setFrameData fr (Some previousData) s)"
| "undoEntry (ClearCanvasLayer cf previousData) s =
     (Normal (), setData (cf_data (cfHeap s cf)) previousData s)"
| "undoEntry (ClearCanvasLegacy fr previousData) s =
     (Normal (), setFrameData fr (Some previousData) s)"
| "undoEntry (ResizeCanvas previousWidth previousHeight w h previousFrameData) s =
     (Normal (), restoreFrameData (frames s) previousFrameData 0
                   (s\<lparr>width := previousWidth, height := previousHeight\<rparr>))"
| "undoEntry (FillRegion dataTarget previousData newGrid) s =
     (Normal (), setData dataTarget previousData s)"
| "undoEntry (AddFrame insertIndex newFrame) s =
     (Normal (), reclampCurrentFrameIndex (s\<lparr>frames := splice_remove insertIndex (frames s)\<rparr>))"
| "undoEntry (DeleteFrame index deletedFrame previousCurrentIndex) s =
     (Normal (), s\<lparr>frames := splice_insert index deletedFrame (frames s),
                   currentFrameIndex := previousCurrentIndex\<rparr>)"
| "undoEntry (DuplicateFrame insertIndex newFrame) s =
     (Normal (), s\<lparr>frames := splice_remove insertIndex (frames s)\<rparr>)"
| "undoEntry (SetFrameDuration frame previousDuration duration) s =
     (Normal (), s\<lparr>frameHeap := (frameHeap s)(frame := (frameHeap s frame)\<lparr>frame_duration := previousDuration\<rparr>)\<rparr>)"
| "undoEntry (SetFrameName frame previousName newName) s =
     (Normal (), s\<lparr>frameHeap := (frameHeap s)(frame := (frameHeap s frame)\<lparr>frame_name := previousName\<rparr>)\<rparr>)"

text \<open>The closure \<open>entry.redo\<close> of each kind of entry.\<close>

fun redoEntry :: "HistoryEntry \<Rightarrow> ProjectState \<Rightarrow> unit completion \<times> ProjectState" where
  "redoEntry (SetCellLayer cf key previousCell cell) s =
     (Normal (), setData (cf_data (cfHeap s cf))
                   (writeCell (dataHeap s (cf_data (cfHeap s cf))) key cell) s)"
| "redoEntry (SetCellLegacy fr key previousCell cell) s =
     (case frame_data (frameHeap s fr) of None \<Rightarrow> (Throws TypeError, s)
      | Some d \<Rightarrow> (Normal (), setData d (writeCell (dataHeap s d) key cell) s))"
| "redoEntry (SetCellsLayer cf previousData newGrid) s =
     (Normal (), setData (cf_data (cfHeap s cf)) newGrid s)"
| "redoEntry (SetCellsLegacy fr previousData newDataCopy) s =
     (Normal (), setFrameData fr (Some newDataCopy) s)"
| "redoEntry (ClearCanvasLayer cf previousData) s =
     (Normal (), setData (cf_data (cfHeap s cf)) [] s)"
| "redoEntry (ClearCanvasLegacy fr previousData) s =
     (case allocData [] s of (fresh, s1) \<Rightarrow> (Normal (), setFrameData fr (Some fresh) s1))"
| "redoEntry (ResizeCanvas previousWidth previousHeight w h previousFrameData) s =
     clipFrames w h (frames s) (s\<lparr>width := w, height := h\<rparr>)"
| "redoEntry (FillRegion dataTarget previousData newGrid) s =
     (Normal (), setData dataTarget newGrid s)"
| "redoEntry (AddFrame insertIndex newFrame) s =
     (Normal (), s\<lparr>frames := splice_insert insertIndex newFrame (frames s)\<rparr>)"
| "redoEntry (DeleteFrame index deletedFrame previousCurrentIndex) s =
     (Normal (), reclampCurrentFrameIndex (s\<lparr>frames := splice_remove index (frames s)\<rparr>))"
| "redoEntry (DuplicateFrame insertIndex newFrame) s =
     (Normal (), s\<lparr>frames := splice_insert insertIndex newFrame (frames s)\<rparr>)"
| "redoEntry (SetFrameDuration frame previousDuration duration) s =
     (Normal (), s\<lparr>frameHeap := (frameHeap s)(frame := (frameHeap s frame)\<lparr>frame_duration := duration\<rparr>)\<rparr>)"
| "redoEntry (SetFrameName frame previousName newName) s =
     (Normal (), s\<lparr>frameHeap := (frameHeap s)(frame := (frameHeap s frame)\<lparr>frame_name := newName\<rparr>)\<rparr>)"

definition undo :: "ProjectState \<Rightarrow> bool completion \<times> ProjectState" where
  "undo s =
     (if historyIndex s < 0 then (Normal False, s)
      else (case nth_opt (historyStack s) (historyIndex s) of
              None \<Rightarrow> (Throws TypeError, s)
            | Some entry \<Rightarrow>
                (case undoEntry entry s of
                   (Throws e, s1) \<Rightarrow> (Throws e, s1)
                 | (Normal u, s1) \<Rightarrow> (Normal True, s1\<lparr>historyIndex := historyIndex s1 - 1, isDirty := True\<rparr>))))"

definition redo :: "ProjectState \<Rightarrow> bool completion \<times> ProjectState" where
  "redo s =
     (if historyIndex s \<ge> int (length (historyStack s)) - 1 then (Normal False, s)
      else
        let s0 = s\<lparr>historyIndex := historyIndex s + 1\<rparr>
        in (case nth_opt (historyStack s0) (historyIndex s0) of
              None \<Rightarrow> (Throws TypeError, s0)
            | Some entry \<Rightarrow>
                (case redoEntry entry s0 of
                   (Throws e, s1) \<Rightarrow> (Throws e, s1)
                 | (Normal u, s1) \<Rightarrow> (Normal True, s1\<lparr>isDirty := True\<rparr>))))"

section \<open>Project operations\<close>

text \<open>The argument \<open>options\<close> of \<open>newProject\<close>: every property may be absent. A guard such
  as \<open>if (options?.width)\<close> tests truthiness: it fails for an absent property, for the
  number 0 and for the empty string.\<close>

record NewProjectOptions =
  opt_width :: "int option"
  opt_height :: "int option"
  opt_name :: "string option"

definition newProject :: "NewProjectOptions option \<Rightarrow> string \<Rightarrow> ProjectState" where
  "newProject options newId =
     (let s0 = createDefaultState newId;
          s1 = (case Option.bind options opt_width of
                  Some w \<Rightarrow> if w \<noteq> 0 then s0\<lparr>width := max 4 (min 200 w)\<rparr> else s0
                | None \<Rightarrow> s0);
          s2 = (case Option.bind options opt_height of
                  Some h \<Rightarrow> if h \<noteq> 0 then s1\<lparr>height := max 4 (min 100 h)\<rparr> else s1
                | None \<Rightarrow> s1);
          s3 = (case Option.bind options opt_name of
                  Some n \<Rightarrow> if n \<noteq> [] then s2\<lparr>name := n\<rparr> else s2
                | None \<Rightarrow> s2)
      in s3\<lparr>isDirty := False\<rparr>)"


section \<open>Layer operations\<close>

definition allocCf :: "MCPContentFrame \<Rightarrow> ProjectState \<Rightarrow> nat \<times> ProjectState" where
  "allocCf cf s = (nextCf s, s\<lparr>cfHeap := (cfHeap s)(nextCf s := cf), nextCf := Suc (nextCf s)\<rparr>)"

text \<open>A mutation of the object that \<open>xs.find(P)\<close> returned: it changes the first element
  that satisfies \<open>P\<close>.\<close>

fun updateFirst :: "('a \<Rightarrow> bool) \<Rightarrow> ('a \<Rightarrow> 'a) \<Rightarrow> 'a list \<Rightarrow> 'a list" where
  "updateFirst P f [] = []"
| "updateFirst P f (x # xs) = (if P x then f x # xs else x # updateFirst P f xs)"

text \<open>\<open>addLayer\<close>, with \<open>createDefaultLayer\<close> inlined; \<open>newLayerId\<close> and \<open>newCfId\<close> are what
  \<open>generateLayerId\<close> and \<open>generateContentFrameId\<close> return.\<close>

definition addLayer :: "string option \<Rightarrow> string \<Rightarrow> string \<Rightarrow> ProjectState \<Rightarrow> MCPLayer \<times> ProjectState" where
  "addLayer name0 newLayerId newCfId s =
     (case allocData [] s of (d, s0) \<Rightarrow>
        (case allocCf \<lparr>cf_id = newCfId, cf_name = ''Frame 1'', startFrame = 0, durationFrames = 1,
                 cf_data = d, hidden = None\<rparr> s0 of (cf, s1) \<Rightarrow>
           let layer = \<lparr>layer_id = newLayerId,
                 layer_name = (case name0 of Some n \<Rightarrow> n
                               | None \<Rightarrow> ''Layer '' @ digits (length (layers s) + 1)),
                 visible = True, solo = False, locked = False, opacity = 100,
                 contentFrames = [cf], propertyTracks = [],
                 staticProperties = [(anchorPoint_x, of_int (width s div 2)),
                                     (anchorPoint_y, of_int (height s div 2))],
                 parentGroupId = None\<rparr>;
               s2 = s1\<lparr>layers := layers s1 @ [layer], activeLayerId := Some (layer_id layer)\<rparr>;
               s3 = (if tl_durationFrames (timelineConfig s2) < 1
                     then s2\<lparr>timelineConfig := (timelineConfig s2)\<lparr>tl_durationFrames := 12\<rparr>\<rparr> else s2)
           in (layer, s3\<lparr>isDirty := True\<rparr>)))"

definition setLayerLocked :: "string \<Rightarrow> bool \<Rightarrow> ProjectState \<Rightarrow> bool \<times> ProjectState" where
  "setLayerLocked layerId lockedValue s =
     (case find (\<lambda>l. layer_id l = layerId) (layers s) of None \<Rightarrow> (False, s)
      | Some layer \<Rightarrow>
          (True, s\<lparr>layers := updateFirst (\<lambda>l. layer_id l = layerId) (\<lambda>l. l\<lparr>locked := lockedValue\<rparr>) (layers s),
                   isDirty := True\<rparr>))"

text \<open>The statement \<open>if (startFrame + durationFrames > timelineConfig.durationFrames)
  timelineConfig.durationFrames = startFrame + durationFrames\<close>.\<close>

definition extendTimeline :: "int \<Rightarrow> ProjectState \<Rightarrow> ProjectState" where
  "extendTimeline endFrame s =
     (if endFrame > tl_durationFrames (timelineConfig s)
      then s\<lparr>timelineConfig := (timelineConfig s)\<lparr>tl_durationFrames := endFrame\<rparr>\<rparr> else s)"

text \<open>\<open>layer.contentFrames.sort((a, b) => a.startFrame - b.startFrame)\<close>: the sort is
  stable, as \<open>sort_key\<close> is.\<close>

definition sortContentFrames :: "ProjectState \<Rightarrow> nat list \<Rightarrow> nat list" where
  "sortContentFrames s cfs = sort_key (\<lambda>cf. startFrame (cfHeap s cf)) cfs"

definition addContentFrame ::
  "string \<Rightarrow> int \<Rightarrow> int \<Rightarrow> CanvasData option \<Rightarrow> string \<Rightarrow> ProjectState \<Rightarrow> nat option \<times> ProjectState" where
  "addContentFrame layerId startFrame0 durationFrames0 data0 newId s =
     (case find (\<lambda>l. layer_id l = layerId) (layers s) of None \<Rightarrow> (None, s)
      | Some layer \<Rightarrow>
          let endFrame = startFrame0 + durationFrames0
          in if list_ex (\<lambda>cf. startFrame0 < startFrame (cfHeap s cf) + durationFrames (cfHeap s cf)
                               \<and> endFrame > startFrame (cfHeap s cf)) (contentFrames layer)
             then (None, s)
             else
               (case allocData (case data0 of Some d \<Rightarrow> d | None \<Rightarrow> []) s of (d, s0) \<Rightarrow>
                  (case allocCf \<lparr>cf_id = newId,
                           cf_name = ''Frame '' @ digits (length (contentFrames layer) + 1),
                           startFrame = startFrame0, durationFrames = max 1 durationFrames0,
                           cf_data = d, hidden = None\<rparr> s0 of (cf, s1) \<Rightarrow>
                     let s2 = s1\<lparr>layers := updateFirst (\<lambda>l. layer_id l = layerId)
                                  (\<lambda>l. l\<lparr>contentFrames := sortContentFrames s1 (contentFrames l @ [cf])\<rparr>)
                                  (layers s1)\<rparr>;
                         s3 = extendTimeline (startFrame0 + durationFrames0) s2
                     in (Some cf, s3\<lparr>isDirty := True\<rparr>))))"

definition updateContentFrameTiming ::
  "string \<Rightarrow> string \<Rightarrow> int \<Rightarrow> int \<Rightarrow> ProjectState \<Rightarrow> bool \<times> ProjectState" where
  "updateContentFrameTiming layerId contentFrameId startFrame0 durationFrames0 s =
     (case find (\<lambda>l. layer_id l = layerId) (layers s) of None \<Rightarrow> (False, s)
      | Some layer \<Rightarrow>
          (case find (\<lambda>cf. cf_id (cfHeap s cf) = contentFrameId) (contentFrames layer) of
             None \<Rightarrow> (False, s)
           | Some cf \<Rightarrow>
               let endFrame = startFrame0 + durationFrames0
               in if list_ex (\<lambda>other. cf_id (cfHeap s other) \<noteq> contentFrameId
                                \<and> startFrame0 < startFrame (cfHeap s other) + durationFrames (cfHeap s other)
                                \<and> endFrame > startFrame (cfHeap s other)) (contentFrames layer)
                  then (False, s)
                  else
                    let s1 = s\<lparr>cfHeap := (cfHeap s)(cf := (cfHeap s cf)\<lparr>startFrame := startFrame0,
                                    durationFrames := max 1 durationFrames0\<rparr>)\<rparr>;
                        s2 = extendTimeline (startFrame0 + durationFrames0) s1;
                        s3 = s2\<lparr>layers := updateFirst (\<lambda>l. layer_id l = layerId)
                                  (\<lambda>l. l\<lparr>contentFrames := sortContentFrames s2 (contentFrames l)\<rparr>)
                                  (layers s2)\<rparr>
                    in (True, s3\<lparr>isDirty := True\<rparr>)))"

text \<open>\<open>xs.findIndex(P)\<close>, with \<open>None\<close> for the result -1.\<close>

fun findIndex :: "('a \<Rightarrow> bool) \<Rightarrow> 'a list \<Rightarrow> nat option" where
  "findIndex P [] = None"
| "findIndex P (x # xs) = (if P x then Some 0 else map_option Suc (findIndex P xs))"

definition removeLayer :: "string \<Rightarrow> ProjectState \<Rightarrow> bool \<times> ProjectState" where
  "removeLayer layerId s =
     (case findIndex (\<lambda>l. layer_id l = layerId) (layers s) of None \<Rightarrow> (False, s)
      | Some index \<Rightarrow>
          if length (layers s) \<le> 1 then (False, s)
          else
            let s1 = s\<lparr>layers := splice_remove (int index) (layers s)\<rparr>;
                s2 = s1\<lparr>layerGroups := filter (\<lambda>g. length (childLayerIds g) > 0)
                         (map (\<lambda>g. g\<lparr>childLayerIds := filter (\<lambda>i. i \<noteq> layerId) (childLayerIds g)\<rparr>)
                            (layerGroups s1))\<rparr>;
                s3 = (if activeLayerId s2 = Some layerId
                      then s2\<lparr>activeLayerId :=
                              map_option layer_id
                                (nth_opt (layers s2) (min (int index) (int (length (layers s2)) - 1)))\<rparr>
                      else s2)
            in (True, s3\<lparr>isDirty := True\<rparr>))"

text \<open>The copies of the content frames of a duplicated layer: \<open>JSON.parse(JSON.stringify(...))\<close>
  makes a new object of every content frame and of its grid, and each gets the next
  identifier of \<open>generateContentFrameId\<close>; \<open>k\<close> counts the identifiers taken so far.\<close>

fun copyContentFrames :: "nat list \<Rightarrow> nat \<Rightarrow> (nat \<Rightarrow> string) \<Rightarrow> ProjectState \<Rightarrow> nat list \<times> ProjectState" where
  "copyContentFrames [] k newCfId s = ([], s)"
| "copyContentFrames (cf # rest) k newCfId s =
     (case allocData (dataHeap s (cf_data (cfHeap s cf))) s of (d, s0) \<Rightarrow>
        (case allocCf ((cfHeap s0 cf)\<lparr>cf_id := newCfId k, cf_data := d\<rparr>) s0 of (c, s1) \<Rightarrow>
           (case copyContentFrames rest (Suc k) newCfId s1 of (cs, s2) \<Rightarrow> (c # cs, s2))))"

text \<open>\<open>duplicateLayer\<close>; \<open>newLayerId\<close> is what \<open>generateLayerId\<close> returns, \<open>newCfId k\<close> and
  \<open>newTrackId k\<close> are the identifiers of the content frame and of the track of index \<open>k\<close>,
  \<open>newKfId k j\<close> the one of the keyframe of index \<open>j\<close> of that track.\<close>

definition duplicateLayer ::
  "string \<Rightarrow> string \<Rightarrow> (nat \<Rightarrow> string) \<Rightarrow> (nat \<Rightarrow> string) \<Rightarrow> (nat \<Rightarrow> nat \<Rightarrow> string) \<Rightarrow> ProjectState
     \<Rightarrow> MCPLayer option \<times> ProjectState" where
  "duplicateLayer layerId newLayerId newCfId newTrackId newKfId s =
     (case find (\<lambda>l. layer_id l = layerId) (layers s) of None \<Rightarrow> (None, s)
      | Some source \<Rightarrow>
          (case copyContentFrames (contentFrames source) 0 newCfId s of (cfs, s1) \<Rightarrow>
             let newLayer = source\<lparr>layer_id := newLayerId,
                   layer_name := layer_name source @ '' (copy)'',
                   contentFrames := cfs,
                   propertyTracks :=
                     map (\<lambda>(k, pt). pt\<lparr>track_id := newTrackId k,
                                  keyframes := map (\<lambda>(j, kf). kf\<lparr>kf_id := newKfId k j\<rparr>)
                                                 (zip [0..<length (keyframes pt)] (keyframes pt))\<rparr>)
                       (zip [0..<length (propertyTracks source)] (propertyTracks source))\<rparr>;
                 sourceIndex = (case findIndex (\<lambda>l. layer_id l = layerId) (layers s1) of
                                  None \<Rightarrow> - 1 | Some i \<Rightarrow> int i)
             in (Some newLayer,
                 s1\<lparr>layers := splice_insert (sourceIndex + 1) newLayer (layers s1),
                    activeLayerId := Some newLayerId, isDirty := True\<rparr>)))"

definition removeContentFrame :: "string \<Rightarrow> string \<Rightarrow> ProjectState \<Rightarrow> bool \<times> ProjectState" where
  "removeContentFrame layerId contentFrameId s =
     (case find (\<lambda>l. layer_id l = layerId) (layers s) of None \<Rightarrow> (False, s)
      | Some layer \<Rightarrow>
          (case findIndex (\<lambda>cf. cf_id (cfHeap s cf) = contentFrameId) (contentFrames layer) of
             None \<Rightarrow> (False, s)
           | Some index \<Rightarrow>
               (True, s\<lparr>layers := updateFirst (\<lambda>l. layer_id l = layerId)
                             (\<lambda>l. l\<lparr>contentFrames := splice_remove (int index) (contentFrames l)\<rparr>)
                             (layers s),
                        isDirty := True\<rparr>)))"

definition updateContentFrameData :: "string \<Rightarrow> string \<Rightarrow> CanvasData \<Rightarrow> ProjectState \<Rightarrow> bool \<times> ProjectState" where
  "updateContentFrameData layerId contentFrameId data0 s =
     (case find (\<lambda>l. layer_id l = layerId) (layers s) of None \<Rightarrow> (False, s)
      | Some layer \<Rightarrow>
          (case find (\<lambda>cf. cf_id (cfHeap s cf) = contentFrameId) (contentFrames layer) of
             None \<Rightarrow> (False, s)
           | Some cf \<Rightarrow>
               (case allocData data0 s of (d, s1) \<Rightarrow>
                  (True, s1\<lparr>cfHeap := (cfHeap s1)(cf := (cfHeap s1 cf)\<lparr>cf_data := d\<rparr>),
                            isDirty := True\<rparr>))))"

section \<open>Keyframe operations\<close>

definition addPropertyTrack ::
  "string \<Rightarrow> PropertyPath \<Rightarrow> string \<Rightarrow> ProjectState \<Rightarrow> MCPPropertyTrack option \<times> ProjectState" where
  "addPropertyTrack layerId path newTrackId s =
     (case find (\<lambda>l. layer_id l = layerId) (layers s) of None \<Rightarrow> (None, s)
      | Some layer \<Rightarrow>
          (case find (\<lambda>t. propertyPath t = path) (propertyTracks layer) of
             Some t \<Rightarrow> (None, s)
           | None \<Rightarrow>
               let track = \<lparr>track_id = newTrackId, propertyPath = path, keyframes = [],
                            loopKeyframes = False\<rparr>
               in (Some track,
                   s\<lparr>layers := updateFirst (\<lambda>l. layer_id l = layerId)
                        (\<lambda>l. l\<lparr>propertyTracks := propertyTracks l @ [track]\<rparr>) (layers s),
                     isDirty := True\<rparr>)))"

text \<open>The body of \<open>addKeyframe\<close> once the track is known: it replaces the keyframe at
  \<open>frame\<close>, appends the new one and sorts by frame.\<close>

definition putKeyframe :: "MCPKeyframe \<Rightarrow> MCPPropertyTrack \<Rightarrow> MCPPropertyTrack" where
  "putKeyframe kf track =
     track\<lparr>keyframes := sort_key kf_frame (filter (\<lambda>k. kf_frame k \<noteq> kf_frame kf) (keyframes track) @ [kf])\<rparr>"

definition addKeyframe ::
  "string \<Rightarrow> PropertyPath \<Rightarrow> int \<Rightarrow> real \<Rightarrow> EasingCurve option \<Rightarrow> string \<Rightarrow> string \<Rightarrow> ProjectState
     \<Rightarrow> MCPKeyframe option \<times> ProjectState" where
  "addKeyframe layerId path frame v easing0 newTrackId newKfId s =
     (case find (\<lambda>l. layer_id l = layerId) (layers s) of None \<Rightarrow> (None, s)
      | Some layer \<Rightarrow>
          (case (case find (\<lambda>t. propertyPath t = path) (propertyTracks layer) of
                   Some t \<Rightarrow> (Some t, s)
                 | None \<Rightarrow> addPropertyTrack layerId path newTrackId s) of
             (None, s1) \<Rightarrow> (None, s1)
           | (Some track, s1) \<Rightarrow>
               let kf = \<lparr>kf_id = newKfId, kf_frame = frame, kf_value = v,
                         easing = (case easing0 of Some e \<Rightarrow> e
                                   | None \<Rightarrow> \<lparr>easing_type = Linear, x1 = None, y1 = None, x2 = None, y2 = None\<rparr>)\<rparr>;
                   s2 = s1\<lparr>layers := updateFirst (\<lambda>l. layer_id l = layerId)
                             (\<lambda>l. l\<lparr>propertyTracks := updateFirst (\<lambda>t. propertyPath t = path)
                                                          (putKeyframe kf) (propertyTracks l)\<rparr>)
                             (layers s1)\<rparr>;
                   s3 = (if frame \<ge> tl_durationFrames (timelineConfig s2)
                         then s2\<lparr>timelineConfig := (timelineConfig s2)\<lparr>tl_durationFrames := frame + 1\<rparr>\<rparr>
                         else s2)
               in (Some kf, s3\<lparr>isDirty := True\<rparr>)))"

text \<open>The \<open>for\<close> loop of \<open>interpolatePropertyValue\<close> over the consecutive pairs
  \<open>kfs[i]\<close>, \<open>kfs[i + 1]\<close>; \<open>None\<close> when the loop ends without returning.
  \<open>Math.round\<close> rounds half up, as \<open>round\<close> does.\<close>

fun interpolateLoop :: "MCPKeyframe list \<Rightarrow> int \<Rightarrow> real option" where
  "interpolateLoop (prev # next # rest) frame =
     (if frame \<ge> kf_frame prev \<and> frame < kf_frame next then
        (if easing_type (easing prev) = Hold then Some (kf_value prev)
         else let t = (of_int frame - of_int (kf_frame prev)) / (of_int (kf_frame next) - of_int (kf_frame prev))
              in Some (of_int (round (kf_value prev + (kf_value next - kf_value prev) * t))))
      else interpolateLoop (next # rest) frame)"
| "interpolateLoop kfs frame = None"

definition interpolatePropertyValue :: "MCPPropertyTrack \<Rightarrow> int \<Rightarrow> real" where
  "interpolatePropertyValue track frame =
     (let kfs = keyframes track
      in if length kfs = 0 then 0
         else if length kfs = 1 then kf_value (kfs ! 0)
         else if frame \<le> kf_frame (kfs ! 0) then kf_value (kfs ! 0)
         else if frame \<ge> kf_frame (kfs ! (length kfs - 1)) then kf_value (kfs ! (length kfs - 1))
         else (case interpolateLoop kfs frame of
                 Some v \<Rightarrow> v
               | None \<Rightarrow> kf_value (kfs ! (length kfs - 1))))"


section \<open>The flat session document (SessionDataSchema)\<close>

text \<open>
  A document as it arrives: a property that the schema declares with \<open>.optional()\<close> or
  \<open>.default(...)\<close> may be absent (\<open>None\<close>). Properties that the schema declares
  \<open>.int()\<close> are integers here; strings are ASCII, so that \<open>.length(1)\<close> counts characters.
\<close>

record SessionFrame =
  sf_id :: string
  sf_name :: "string option"
  sf_duration :: "real option"
  sf_data :: "CanvasData option"
  sf_thumbnail :: "string option"

record SessionCanvas =
  sc_width :: int
  sc_height :: int
  sc_canvasBackgroundColor :: string
  sc_showGrid :: "bool option"

record SessionAnimation =
  sa_frames :: "SessionFrame list"
  sa_currentFrameIndex :: int
  sa_frameRate :: "real option"
  sa_looping :: "bool option"

record SessionTools =
  st_activeTool :: "string option"
  st_selectedColor :: "string option"
  st_selectedBgColor :: "string option"
  st_selectedCharacter :: "string option"
  st_paintBucketContiguous :: "bool option"
  st_rectangleFilled :: "bool option"

record SessionTypography =
  sy_fontSize :: "real option"
  sy_characterSpacing :: "real option"
  sy_lineSpacing :: "real option"
  sy_selectedFontId :: "string option"

record SessionPanOffset =
  pan_x :: "real option"
  pan_y :: "real option"

record SessionUI =
  ui_zoom :: "real option"
  ui_panOffset :: "SessionPanOffset option"
  ui_theme :: "string option"

record SessionData =
  sd_version :: "string option"
  sd_name :: "string option"
  sd_description :: "string option"
  sd_canvas :: SessionCanvas
  sd_animation :: SessionAnimation
  sd_tools :: "SessionTools option"
  sd_typography :: "SessionTypography option"
  sd_ui :: "SessionUI option"

text \<open>The regular expression \<open>/^#[0-9A-Fa-f]{6}$/\<close>.\<close>

definition isHexColor :: "string \<Rightarrow> bool" where
  "isHexColor str =
     (case str of [] \<Rightarrow> False
      | c # cs \<Rightarrow> c = CHR ''#'' \<and> length cs = 6 \<and> list_all (\<lambda>h. h \<in> set ''0123456789ABCDEFabcdef'') cs)"

definition validCell :: "Cell \<Rightarrow> bool" where
  "validCell c = (length (char c) = 1 \<and> isHexColor (color c))"

definition toolNames :: "string list" where
  "toolNames = [''pencil'', ''eraser'', ''paintbucket'', ''select'', ''lasso'', ''magicwand'',
     ''rectangle'', ''ellipse'', ''eyedropper'', ''line'', ''text'', ''asciitype'',
     ''asciibox'', ''brush'', ''beziershape'', ''gradientfill'', ''fliphorizontal'', ''flipvertical'']"

text \<open>A default of the schema: the value given, or the default when the property is absent.\<close>

definition withDefault :: "'a \<Rightarrow> 'a option \<Rightarrow> 'a" where
  "withDefault d v = (case v of None \<Rightarrow> d | Some x \<Rightarrow> x)"

definition parseTools :: "SessionTools \<Rightarrow> SessionTools option" where
  "parseTools tl0 =
     (let tool = withDefault ''pencil'' (st_activeTool tl0);
          col = withDefault ''#FFFFFF'' (st_selectedColor tl0);
          ch = withDefault ''@'' (st_selectedCharacter tl0)
      in if tool \<in> set toolNames \<and> isHexColor col \<and> length ch = 1
         then Some \<lparr>st_activeTool = Some tool, st_selectedColor = Some col,
                st_selectedBgColor = Some (withDefault ''transparent'' (st_selectedBgColor tl0)),
                st_selectedCharacter = Some ch,
                st_paintBucketContiguous = Some (withDefault True (st_paintBucketContiguous tl0)),
                st_rectangleFilled = Some (withDefault False (st_rectangleFilled tl0))\<rparr>
         else None)"

definition parseTypography :: "SessionTypography \<Rightarrow> SessionTypography option" where
  "parseTypography ty0 =
     (let fs = withDefault 16 (sy_fontSize ty0);
          cs = withDefault 0 (sy_characterSpacing ty0);
          ls = withDefault 0 (sy_lineSpacing ty0)
      in if 8 \<le> fs \<and> fs \<le> 32 \<and> 0 \<le> cs \<and> cs \<le> 10 \<and> 0 \<le> ls \<and> ls \<le> 10
         then Some \<lparr>sy_fontSize = Some fs, sy_characterSpacing = Some cs, sy_lineSpacing = Some ls,
                sy_selectedFontId = Some (withDefault ''jetbrains-mono'' (sy_selectedFontId ty0))\<rparr>
         else None)"

definition parseUI :: "SessionUI \<Rightarrow> SessionUI option" where
  "parseUI ui0 =
     (let zoom = withDefault 1 (ui_zoom ui0);
          pan = withDefault \<lparr>pan_x = Some 0, pan_y = Some 0\<rparr> (ui_panOffset ui0);
          theme = withDefault ''dark'' (ui_theme ui0)
      in if 1 / 10 \<le> zoom \<and> zoom \<le> 5 \<and> theme \<in> set [''light'', ''dark'']
         then Some \<lparr>ui_zoom = Some zoom,
                ui_panOffset = Some \<lparr>pan_x = Some (withDefault 0 (pan_x pan)),
                                     pan_y = Some (withDefault 0 (pan_y pan))\<rparr>,
                ui_theme = Some theme\<rparr>
         else None)"

text \<open>An optional sub-object: absent, invalid, or parsed.\<close>

definition parseOptional :: "('a \<Rightarrow> 'a option) \<Rightarrow> 'a option \<Rightarrow> 'a option option" where
  "parseOptional f v = (case v of None \<Rightarrow> Some None
     | Some x \<Rightarrow> (case f x of None \<Rightarrow> None | Some y \<Rightarrow> Some (Some y)))"

definition validSessionFrame :: "SessionFrame \<Rightarrow> bool" where
  "validSessionFrame f = (case sf_data f of None \<Rightarrow> True | Some d \<Rightarrow> list_all (\<lambda>(k, c). validCell c) d)"

text \<open>\<open>SessionDataSchema.parse\<close>: \<open>None\<close> when it throws, otherwise the document with the
  defaults filled in.\<close>

definition SessionDataSchema_parse :: "SessionData \<Rightarrow> SessionData option" where
  "SessionDataSchema_parse doc =
     (let cv = sd_canvas doc; an = sd_animation doc
      in if 4 \<le> sc_width cv \<and> sc_width cv \<le> 200 \<and> 4 \<le> sc_height cv \<and> sc_height cv \<le> 100
            \<and> isHexColor (sc_canvasBackgroundColor cv)
            \<and> list_all validSessionFrame (sa_frames an)
            \<and> 0 \<le> sa_currentFrameIndex an
         then (case (parseOptional parseTools (sd_tools doc),
                     parseOptional parseTypography (sd_typography doc),
                     parseOptional parseUI (sd_ui doc)) of
                 (Some tl1, Some ty1, Some ui1) \<Rightarrow>
                   Some (doc\<lparr>sd_version := Some (withDefault ''1.0.0'' (sd_version doc)),
                            sd_canvas := cv\<lparr>sc_showGrid := Some (withDefault True (sc_showGrid cv))\<rparr>,
                            sd_tools := tl1, sd_typography := ty1, sd_ui := ui1\<rparr>)
               | _ \<Rightarrow> None)
         else None)"

text \<open>The \<open>map\<close> over the validated frames in \<open>loadFromSessionData\<close>: every frame
  becomes a new frame object with its grid, \<open>i\<close> is the index of the first frame of the
  list.\<close>

fun loadFrames :: "SessionFrame list \<Rightarrow> nat \<Rightarrow> ProjectState \<Rightarrow> nat list \<times> ProjectState" where
  "loadFrames [] i s = ([], s)"
| "loadFrames (f # rest) i s =
     (case allocData (withDefault [] (sf_data f)) s of (d, s0) \<Rightarrow>
        (case allocFrame \<lparr>frame_id = sf_id f,
                 frame_name = withDefault (''Frame '' @ digits (i + 1)) (sf_name f),
                 frame_duration = withDefault DEFAULT_FRAME_DURATION (sf_duration f),
                 frame_data = Some d\<rparr> s0 of (fr, s1) \<Rightarrow>
           (case loadFrames rest (Suc i) s1 of (frs, s2) \<Rightarrow> (fr # frs, s2))))"

text \<open>The spreads \<open>{ ...this.state.toolState, ...validated.tools }\<close> and
  \<open>{ ...this.state.typography, ...validated.typography }\<close>.\<close>

definition mergeTools :: "ToolState \<Rightarrow> SessionTools \<Rightarrow> ToolState" where
  "mergeTools ts v =
     \<lparr>activeTool = withDefault (activeTool ts) (st_activeTool v),
      selectedColor = withDefault (selectedColor ts) (st_selectedColor v),
      selectedBgColor = withDefault (selectedBgColor ts) (st_selectedBgColor v),
      selectedCharacter = withDefault (selectedCharacter ts) (st_selectedCharacter v),
      paintBucketContiguous = withDefault (paintBucketContiguous ts) (st_paintBucketContiguous v),
      rectangleFilled = withDefault (rectangleFilled ts) (st_rectangleFilled v)\<rparr>"

definition mergeTypography :: "TypographySettings \<Rightarrow> SessionTypography \<Rightarrow> TypographySettings" where
  "mergeTypography ty v =
     \<lparr>fontSize = withDefault (fontSize ty) (sy_fontSize v),
      characterSpacing = withDefault (characterSpacing ty) (sy_characterSpacing v),
      lineSpacing = withDefault (lineSpacing ty) (sy_lineSpacing v),
      selectedFontId = withDefault (selectedFontId ty) (sy_selectedFontId v)\<rparr>"

text \<open>\<open>loadFromSessionData\<close>; \<open>newId\<close> is the identifier of the default frame of
  \<open>createDefaultState\<close>, \<open>newId2\<close> the one of the default frame created for a document
  without frames.\<close>

definition loadFromSessionData ::
  "SessionData \<Rightarrow> string option \<Rightarrow> string \<Rightarrow> string \<Rightarrow> ProjectState \<Rightarrow> unit completion \<times> ProjectState" where
  "loadFromSessionData doc filePath0 newId newId2 s =
     (case SessionDataSchema_parse doc of
        None \<Rightarrow> (Throws ZodError, s)
      | Some validated \<Rightarrow>
          let s0 = (createDefaultState newId)
                     \<lparr>name := withDefault ''Untitled Project'' (sd_name validated),
                      description := withDefault '''' (sd_description validated),
                      filePath := filePath0,
                      width := sc_width (sd_canvas validated),
                      height := sc_height (sd_canvas validated),
                      backgroundColor := sc_canvasBackgroundColor (sd_canvas validated),
                      showGrid := withDefault True (sc_showGrid (sd_canvas validated))\<rparr>
          in (case loadFrames (sa_frames (sd_animation validated)) 0 s0 of (frs, s1) \<Rightarrow>
                (case (if length frs = 0
                       then (case allocData [] s1 of (d, s1a) \<Rightarrow>
                               (case allocFrame (createDefaultFrame newId2 d) s1a of (fr, s1b) \<Rightarrow> ([fr], s1b)))
                       else (frs, s1)) of (frs2, s2) \<Rightarrow>
                   let s3 = s2\<lparr>frames := frs2,
                              currentFrameIndex := min (sa_currentFrameIndex (sd_animation validated))
                                                       (int (length frs2) - 1),
                              frameRate := withDefault 12 (sa_frameRate (sd_animation validated)),
                              looping := withDefault True (sa_looping (sd_animation validated))\<rparr>;
                       s4 = (case sd_tools validated of None \<Rightarrow> s3
                             | Some v \<Rightarrow> s3\<lparr>toolState := mergeTools (toolState s3) v\<rparr>);
                       s5 = (case sd_typography validated of None \<Rightarrow> s4
                             | Some v \<Rightarrow> s4\<lparr>typography := mergeTypography (typography s4) v\<rparr>)
                   in (Normal (), s5\<lparr>historyStack := [], historyIndex := - 1, isDirty := False\<rparr>))))"

text \<open>The callback of the \<open>map\<close> over the frames in \<open>toSessionData\<close>.\<close>

definition frameToSession :: "ProjectState \<Rightarrow> nat \<Rightarrow> SessionFrame" where
  "frameToSession s fr =
     \<lparr>sf_id = frame_id (frameHeap s fr),
      sf_name = Some (frame_name (frameHeap s fr)),
      sf_duration = Some (frame_duration (frameHeap s fr)),
      sf_data = map_option (dataHeap s) (frame_data (frameHeap s fr)),
      sf_thumbnail = None\<rparr>"

definition toSessionData :: "ProjectState \<Rightarrow> SessionData" where
  "toSessionData s =
     \<lparr>sd_version = Some ''1.0.0'',
      sd_name = Some (name s),
      sd_description = (if description s = [] then None else Some (description s)),
      sd_canvas = \<lparr>sc_width = width s, sc_height = height s,
                   sc_canvasBackgroundColor = backgroundColor s, sc_showGrid = Some (showGrid s)\<rparr>,
      sd_animation =
        \<lparr>sa_frames = map (frameToSession s) (frames s),
         sa_currentFrameIndex = currentFrameIndex s,
         sa_frameRate = Some (frameRate s),
         sa_looping = Some (looping s)\<rparr>,
      sd_tools = Some \<lparr>st_activeTool = Some (activeTool (toolState s)),
                       st_selectedColor = Some (selectedColor (toolState s)),
                       st_selectedBgColor = Some (selectedBgColor (toolState s)),
                       st_selectedCharacter = Some (selectedCharacter (toolState s)),
                       st_paintBucketContiguous = Some (paintBucketContiguous (toolState s)),
                       st_rectangleFilled = Some (rectangleFilled (toolState s))\<rparr>,
      sd_typography = Some \<lparr>sy_fontSize = Some (fontSize (typography s)),
                            sy_characterSpacing = Some (characterSpacing (typography s)),
                            sy_lineSpacing = Some (lineSpacing (typography s)),
                            sy_selectedFontId = Some (selectedFontId (typography s))\<rparr>,
      sd_ui = None\<rparr>"


section \<open>Sequences of calls\<close>

text \<open>A call of a public operation of \<open>ProjectStateManager\<close> with its arguments (and the
  identifiers that the generators return during the call).\<close>

datatype Op =
    OpSetCell int int Cell bool
  | OpSetCells "(int \<times> int \<times> Cell) list" bool
  | OpClearCell int int bool
  | OpClearCanvas bool
  | OpResizeCanvas int int bool
  | OpFillRegion int int Cell FillOptions bool
  | OpAddFrame "int option" "CanvasData option" "real option" bool string
  | OpDeleteFrame int bool
  | OpDuplicateFrame int bool string
  | OpGoToFrame int
  | OpSetFrameDuration int real bool
  | OpSetFrameName int string bool
  | OpUndo
  | OpRedo
  | OpAddLayer "string option" string string
  | OpSetLayerLocked string bool
  | OpAddContentFrame string int int "CanvasData option" string
  | OpUpdateContentFrameTiming string string int int
  | OpRemoveLayer string
  | OpDuplicateLayer string string "nat \<Rightarrow> string" "nat \<Rightarrow> string" "nat \<Rightarrow> nat \<Rightarrow> string"
  | OpRemoveContentFrame string string
  | OpUpdateContentFrameData string string CanvasData
  | OpAddKeyframe string PropertyPath int real "EasingCurve option" string string
  | OpNewProject "NewProjectOptions option" string
  | OpLoadFromSessionData SessionData "string option" string string

text \<open>The state after a call, whether it returned or threw; \<open>None\<close> if it never returns.
  An exception leaves the engine with the state reached when it was thrown.\<close>

fun applyOp :: "Op \<Rightarrow> ProjectState \<Rightarrow> ProjectState option" where
  "applyOp (OpSetCell x y cell r) s = Some (snd (setCell x y cell r s))"
| "applyOp (OpSetCells cells r) s = Some (snd (setCells cells r s))"
| "applyOp (OpClearCell x y r) s = Some (snd (clearCell x y r s))"
| "applyOp (OpClearCanvas r) s = Some (snd (clearCanvas r s))"
| "applyOp (OpResizeCanvas w h r) s = Some (snd (resizeCanvas w h r s))"
| "applyOp (OpFillRegion x y cell options r) s = map_option snd (fillRegion x y cell options r s)"
| "applyOp (OpAddFrame atIndex canvasData duration r newId) s =
     Some (snd (addFrame atIndex canvasData duration r newId s))"
| "applyOp (OpDeleteFrame index r) s = Some (snd (deleteFrame index r s))"
| "applyOp (OpDuplicateFrame index r newId) s = Some (snd (duplicateFrame index r newId s))"
| "applyOp (OpGoToFrame index) s = Some (snd (goToFrame index s))"
| "applyOp (OpSetFrameDuration index duration r) s = Some (snd (setFrameDuration index duration r s))"
| "applyOp (OpSetFrameName index newName r) s = Some (snd (setFrameName index newName r s))"
| "applyOp OpUndo s = Some (snd (undo s))"
| "applyOp OpRedo s = Some (snd (redo s))"
| "applyOp (OpAddLayer name0 newLayerId newCfId) s = Some (snd (addLayer name0 newLayerId newCfId s))"
| "applyOp (OpSetLayerLocked layerId b) s = Some (snd (setLayerLocked layerId b s))"
| "applyOp (OpAddContentFrame layerId start dur data0 newId) s =
     Some (snd (addContentFrame layerId start dur data0 newId s))"
| "applyOp (OpUpdateContentFrameTiming layerId cfId start dur) s =
     Some (snd (updateContentFrameTiming layerId cfId start dur s))"
| "applyOp (OpRemoveLayer layerId) s = Some (snd (removeLayer layerId s))"
| "applyOp (OpDuplicateLayer layerId newLayerId newCfId newTrackId newKfId) s =
     Some (snd (duplicateLayer layerId newLayerId newCfId newTrackId newKfId s))"
| "applyOp (OpRemoveContentFrame layerId cfId) s = Some (snd (removeContentFrame layerId cfId s))"
| "applyOp (OpUpdateContentFrameData layerId cfId data0) s =
     Some (snd (updateContentFrameData layerId cfId data0 s))"
| "applyOp (OpAddKeyframe layerId path frame v easing0 newTrackId newKfId) s =
     Some (snd (addKeyframe layerId path frame v easing0 newTrackId newKfId s))"
| "applyOp (OpNewProject options newId) s = Some (newProject options newId)"
| "applyOp (OpLoadFromSessionData doc filePath0 newId newId2) s =
     Some (snd (loadFromSessionData doc filePath0 newId newId2 s))"

fun runOps :: "Op list \<Rightarrow> ProjectState \<Rightarrow> ProjectState option" where
  "runOps [] s = Some s"
| "runOps (op # ops) s = (case applyOp op s of None \<Rightarrow> None | Some s1 \<Rightarrow> runOps ops s1)"

section \<open>Sparsity\<close>

text \<open>A grid is sparse when none of its stored cells is the empty value.\<close>

definition sparse :: "CanvasData \<Rightarrow> bool" where
  "sparse d = list_all (\<lambda>(key, cell). \<not> isEmpty cell) d"

text \<open>The grids and cells that a history entry has captured and can write back.\<close>

fun entrySparse :: "HistoryEntry \<Rightarrow> bool" where
  "entrySparse (SetCellLayer cf key previousCell cell) = (case previousCell of None \<Rightarrow> True | Some c \<Rightarrow> \<not> isEmpty c)"
| "entrySparse (SetCellLegacy fr key previousCell cell) = (case previousCell of None \<Rightarrow> True | Some c \<Rightarrow> \<not> isEmpty c)"
| "entrySparse (SetCellsLayer cf previousData newGrid) = (sparse previousData \<and> sparse newGrid)"
| "entrySparse (ClearCanvasLayer cf previousData) = sparse previousData"
| "entrySparse (FillRegion dataTarget previousData newGrid) = (sparse previousData \<and> sparse newGrid)"
| "entrySparse e = True"

text \<open>Every grid object of the store is sparse (the grids of the frames and of the content
  frames are among them), and so is what the history can write back.\<close>

definition sparseState :: "ProjectState \<Rightarrow> bool" where
  "sparseState s = ((\<forall>d. sparse (dataHeap s d)) \<and> list_all entrySparse (historyStack s))"


text \<open>The grids of the document: those of the legacy frames and of the content frames of
  the layers.\<close>

definition documentGrids :: "ProjectState \<Rightarrow> CanvasData list" where
  "documentGrids s =
     concat (map (\<lambda>fr. case frame_data (frameHeap s fr) of None \<Rightarrow> [] | Some d \<Rightarrow> [dataHeap s d]) (frames s))
     @ concat (map (\<lambda>layer. map (\<lambda>cf. dataHeap s (cf_data (cfHeap s cf))) (contentFrames layer)) (layers s))"

section \<open>Non-overlap of content frames\<close>

text \<open>The half-open intervals \<open>[startFrame, startFrame + durationFrames)\<close> of two content
  frames intersect.\<close>

definition overlap :: "MCPContentFrame \<Rightarrow> MCPContentFrame \<Rightarrow> bool" where
  "overlap a b = (startFrame a < startFrame b + durationFrames b \<and> startFrame b < startFrame a + durationFrames a)"

text \<open>The content frames of a layer, read from the store.\<close>

definition layerContentFrames :: "ProjectState \<Rightarrow> string \<Rightarrow> MCPContentFrame list" where
  "layerContentFrames s layerId =
     (case find (\<lambda>l. layer_id l = layerId) (layers s) of None \<Rightarrow> []
      | Some layer \<Rightarrow> map (cfHeap s) (contentFrames layer))"


section \<open>Example documents\<close>

definition cellX :: Cell where
  "cellX = \<lparr>char = ''X'', color = ''#FFFFFF'', bgColor = ''transparent''\<rparr>"

definition noOptions :: FillOptions where
  "noOptions = \<lparr>contiguous = None, matchChar = None, matchColor = None, matchBgColor = None\<rparr>"

text \<open>The number of stored cells of every grid of the document.\<close>

definition cellCounts :: "ProjectState \<Rightarrow> nat list" where
  "cellCounts s = map length (documentGrids s)"

text \<open>What the undo law compares: the history cursor, the canvas dimensions, the number of
  cells of every grid and the cell at (0, 0).\<close>

definition observe :: "ProjectState \<Rightarrow> int \<times> int \<times> int \<times> nat list \<times> Cell completion" where
  "observe s = (historyIndex s, width s, height s, cellCounts s, getCell 0 0 s)"

text \<open>A new 4 by 4 project.\<close>

definition smallProject :: ProjectState where
  "smallProject = newProject (Some \<lparr>opt_width = Some 4, opt_height = Some 4, opt_name = None\<rparr>) ''f1''"

text \<open>A history of 100 entries with the cursor on the last one: K = 100, M = 0.\<close>

definition fullHistory :: ProjectState where
  "fullHistory = (createDefaultState ''f1'')
     \<lparr>historyStack := replicate 100 (SetFrameName 0 ''Frame 1'' ''a''), historyIndex := 99\<rparr>"

text \<open>A history of 3 entries after 2 undos: K = 3, M = 2.\<close>

definition undoneHistory :: ProjectState where
  "undoneHistory = (createDefaultState ''f1'')
     \<lparr>historyStack := [SetFrameName 0 ''Frame 1'' ''a'', SetFrameName 0 ''a'' ''b'', SetFrameName 0 ''b'' ''c''],
      historyIndex := 0\<rparr>"

text \<open>One layer, locked.\<close>

definition lockedDoc :: ProjectState where
  "lockedDoc = snd (setLayerLocked ''L1'' True (snd (addLayer None ''L1'' ''cf1'' (createDefaultState ''f1''))))"

text \<open>One layer with the keyframes (0, 0) and (10, 100) on \<open>transform.position.x\<close>.\<close>

definition rampDoc :: ProjectState where
  "rampDoc = snd (addKeyframe ''L1'' position_x 10 100 None ''pt2'' ''kf2''
               (snd (addKeyframe ''L1'' position_x 0 0 None ''pt1'' ''kf1''
                 (snd (addLayer None ''L1'' ''cf1'' (createDefaultState ''f1''))))))"

definition rampTrack :: MCPPropertyTrack where
  "rampTrack = hd (propertyTracks (hd (layers rampDoc)))"

text \<open>A new layer, whose default content frame covers \<open>[0, 1)\<close>, and then
  \<open>addContentFrame(layer, 0, 0)\<close>.\<close>

definition overlapDoc :: "nat option \<times> ProjectState" where
  "overlapDoc = addContentFrame ''L1'' 0 0 None ''cf2''
                  (snd (addLayer None ''L1'' ''cf1'' (createDefaultState ''f1'')))"







section \<open>Flat documents that state every property\<close>

text \<open>A document that states every property that \<open>toSessionData\<close> writes and none that
  it leaves out: the version is 1.0.0, the name is present, the description is absent or
  not empty, every optional property of the canvas, of the animation, of the frames, of
  the tools and of the typography is present, there is at least one frame and
  \<open>currentFrameIndex\<close> is the index of one, and there is neither a thumbnail nor a \<open>ui\<close>
  object.\<close>

definition explicitFrame :: "SessionFrame \<Rightarrow> bool" where
  "explicitFrame f = (sf_name f \<noteq> None \<and> sf_duration f \<noteq> None \<and> sf_data f \<noteq> None \<and> sf_thumbnail f = None)"

definition explicitTools :: "SessionTools \<Rightarrow> bool" where
  "explicitTools v = (st_activeTool v \<noteq> None \<and> st_selectedColor v \<noteq> None \<and> st_selectedBgColor v \<noteq> None
     \<and> st_selectedCharacter v \<noteq> None \<and> st_paintBucketContiguous v \<noteq> None \<and> st_rectangleFilled v \<noteq> None)"

definition explicitTypography :: "SessionTypography \<Rightarrow> bool" where
  "explicitTypography v = (sy_fontSize v \<noteq> None \<and> sy_characterSpacing v \<noteq> None \<and> sy_lineSpacing v \<noteq> None
     \<and> sy_selectedFontId v \<noteq> None)"

definition explicitDocument :: "SessionData \<Rightarrow> bool" where
  "explicitDocument doc =
     (sd_version doc = Some ''1.0.0'' \<and> sd_name doc \<noteq> None \<and> sd_description doc \<noteq> Some []
      \<and> sc_showGrid (sd_canvas doc) \<noteq> None
      \<and> sa_frames (sd_animation doc) \<noteq> []
      \<and> list_all explicitFrame (sa_frames (sd_animation doc))
      \<and> sa_currentFrameIndex (sd_animation doc) < int (length (sa_frames (sd_animation doc)))
      \<and> sa_frameRate (sd_animation doc) \<noteq> None \<and> sa_looping (sd_animation doc) \<noteq> None
      \<and> (case sd_tools doc of None \<Rightarrow> False | Some v \<Rightarrow> explicitTools v)
      \<and> (case sd_typography doc of None \<Rightarrow> False | Some v \<Rightarrow> explicitTypography v)
      \<and> sd_ui doc = None)"

text \<open>A document of one frame with one cell that states every property, and the same
  document with a \<open>ui\<close> object.\<close>

definition fullDoc :: SessionData where
  "fullDoc =
     \<lparr>sd_version = Some ''1.0.0'', sd_name = Some ''Demo'', sd_description = Some ''A demo'',
      sd_canvas = \<lparr>sc_width = 10, sc_height = 5, sc_canvasBackgroundColor = ''#000000'',
                   sc_showGrid = Some False\<rparr>,
      sd_animation = \<lparr>sa_frames = [\<lparr>sf_id = ''frame-a'', sf_name = Some ''Intro'', sf_duration = Some 250,
                                      sf_data = Some [((1, 2), cellX)], sf_thumbnail = None\<rparr>],
                      sa_currentFrameIndex = 0, sa_frameRate = Some 24, sa_looping = Some False\<rparr>,
      sd_tools = Some \<lparr>st_activeTool = Some ''eraser'', st_selectedColor = Some ''#FF0000'',
                       st_selectedBgColor = Some ''#000000'', st_selectedCharacter = Some ''#'',
                       st_paintBucketContiguous = Some False, st_rectangleFilled = Some True\<rparr>,
      sd_typography = Some \<lparr>sy_fontSize = Some 12, sy_characterSpacing = Some 1, sy_lineSpacing = Some 2,
                            sy_selectedFontId = Some ''courier''\<rparr>,
      sd_ui = None\<rparr>"

definition uiDoc :: SessionData where
  "uiDoc = fullDoc\<lparr>sd_ui := Some \<lparr>ui_zoom = Some 2,
                                    ui_panOffset = Some \<lparr>pan_x = Some 0, pan_y = Some 0\<rparr>,
                                    ui_theme = Some ''light''\<rparr>\<rparr>"

text \<open>The content frames of a layer are well formed: they are distinct objects of the
  store with distinct identifiers, and no two of them overlap.\<close>

definition disjointFrames :: "ProjectState \<Rightarrow> nat list \<Rightarrow> bool" where
  "disjointFrames s cfs = (\<forall>a\<in>set cfs. \<forall>b\<in>set cfs. a \<noteq> b \<longrightarrow> \<not> overlap (cfHeap s a) (cfHeap s b))"

definition layerOk :: "ProjectState \<Rightarrow> MCPLayer \<Rightarrow> bool" where
  "layerOk s layer =
     (distinct (contentFrames layer) \<and> (\<forall>a\<in>set (contentFrames layer). a < nextCf s)
      \<and> distinct (map (\<lambda>a. cf_id (cfHeap s a)) (contentFrames layer))
      \<and> disjointFrames s (contentFrames layer))"

section \<open>The grid that edits go to\<close>




section \<open>Document lifecycle: newProject\<close>

text \<open>
  C9 (as amended). After \<open>newProject\<close> the document is the default state except for the width,
  the height and the name: the width is the provided width clamped to [4, 200] when one
  is provided and is not 0, and 80 otherwise; the height is the provided height clamped
  to [4, 100] when one is provided and is not 0, and 24 otherwise. The document is in
  flat mode, the history is empty, \<open>canUndo\<close> and \<open>canRedo\<close> are false and the dirty flag
  is false.
\<close>

theorem newProject_fresh_default:
  "newProject options newId =
     (createDefaultState newId)\<lparr>
        width := (case Option.bind options opt_width of None \<Rightarrow> 80
                  | Some w \<Rightarrow> if w = 0 then 80 else max 4 (min 200 w)),
        height := (case Option.bind options opt_height of None \<Rightarrow> 24
                   | Some h \<Rightarrow> if h = 0 then 24 else max 4 (min 100 h)),
        name := (case Option.bind options opt_name of None \<Rightarrow> ''Untitled Project''
                 | Some n \<Rightarrow> if n = [] then ''Untitled Project'' else n)\<rparr>
   \<and> \<not> isLayerMode (newProject options newId)
   \<and> historyStack (newProject options newId) = []
   \<and> \<not> canUndo (newProject options newId) \<and> \<not> canRedo (newProject options newId)
   \<and> \<not> isDirty (newProject options newId)"
  by (auto simp: newProject_def Let_def createDefaultState_def isLayerMode_def canUndo_def canRedo_def
      split: option.splits)

text \<open>C9 as stated fails for the width 0: the claim gives 0 clamped to [4, 200], which is 4,
  and \<open>newProject({width: 0})\<close> leaves the default 80.\<close>

theorem newProject_width_zero:
  "width (newProject (Some \<lparr>opt_width = Some 0, opt_height = None, opt_name = None\<rparr>) ''f1'') = 80
   \<and> max 4 (min 200 (0 :: int)) = 4"
  by (simp add: newProject_def createDefaultState_def)

section \<open>History truncation\<close>

lemma pushHistory_kept:
  assumes "int (length (historyStack s)) = K" "historyIndex s = K - 1 - M" "0 \<le> M" "M \<le> K"
  shows "(if historyIndex s < int (length (historyStack s)) - 1
          then slice0 (historyIndex s + 1) (historyStack s) else historyStack s)
         = take (nat (K - M)) (historyStack s)"
  using assms by (auto simp: slice0_def)

text \<open>
  C7 (as amended). If the history stack holds K entries and M undos have been performed
  (the cursor is K - 1 - M), pushing an entry keeps the first K - M entries, discards the
  M redo-pending ones and appends the new entry; if the K - M + 1 entries exceed
  \<open>maxHistorySize\<close>, the oldest entry is dropped as well. The stack then holds K - M + 1
  entries, or K - M after the eviction; the cursor is on the last entry, which is the
  new one, and \<open>redo\<close> returns false and changes nothing.
\<close>

theorem pushHistory_truncates:
  assumes K: "int (length (historyStack s)) = K"
    and idx: "historyIndex s = K - 1 - M"
    and M: "0 \<le> M" "M \<le> K"
    and mx: "maxHistorySize s \<ge> 1"
  shows "historyStack (pushHistory e s) =
           (if K - M + 1 > maxHistorySize s
            then tl (take (nat (K - M)) (historyStack s) @ [e])
            else take (nat (K - M)) (historyStack s) @ [e])
    \<and> int (length (historyStack (pushHistory e s))) =
           (if K - M + 1 > maxHistorySize s then K - M else K - M + 1)
    \<and> nth_opt (historyStack (pushHistory e s)) (historyIndex (pushHistory e s)) = Some e
    \<and> historyIndex (pushHistory e s) = int (length (historyStack (pushHistory e s))) - 1
    \<and> redo (pushHistory e s) = (Normal False, pushHistory e s)"
proof -
  let ?kept = "take (nat (K - M)) (historyStack s)"
  have len: "int (length ?kept) = K - M" using K M by auto
  have unfold: "pushHistory e s =
     (if int (length (?kept @ [e])) > maxHistorySize s
      then s\<lparr>historyStack := tl (?kept @ [e]), historyIndex := int (length (?kept @ [e])) - 1 - 1\<rparr>
      else s\<lparr>historyStack := ?kept @ [e], historyIndex := int (length (?kept @ [e])) - 1\<rparr>)"
    unfolding pushHistory_def Let_def pushHistory_kept [OF K idx M] by simp
  show ?thesis
  proof (cases "K - M + 1 > maxHistorySize s")
    case True
    then have ne: "?kept \<noteq> []" using len mx by auto
    have "nth_opt (tl (?kept @ [e])) (K - M - 1) = Some e"
      using ne len by (cases ?kept) (auto simp: nth_opt_def nth_append)
    with True len ne show ?thesis
      by (auto simp: unfold redo_def)
  next
    case False
    have "nth_opt (?kept @ [e]) (K - M) = Some e"
      using len M by (auto simp: nth_opt_def nth_append)
    with False len show ?thesis
      by (auto simp: unfold redo_def)
  qed
qed

theorem pushHistory_truncates_witness:
  "historyStack (pushHistory (SetFrameName 0 ''a'' ''z'') undoneHistory)
     = [SetFrameName 0 ''Frame 1'' ''a'', SetFrameName 0 ''a'' ''z'']
   \<and> historyIndex (pushHistory (SetFrameName 0 ''a'' ''z'') undoneHistory) = 1
   \<and> redo (pushHistory (SetFrameName 0 ''a'' ''z'') undoneHistory)
     = (Normal False, pushHistory (SetFrameName 0 ''a'' ''z'') undoneHistory)"
  using pushHistory_truncates [of undoneHistory 3 2 "SetFrameName 0 ''a'' ''z''"]
  by (simp add: undoneHistory_def createDefaultState_def)

text \<open>C7 as stated fails for K = 100 and M = 0: the push leaves 100 entries, not
  K - M + 1 = 101, because the oldest entry is evicted.\<close>

theorem pushHistory_full_stack:
  "length (historyStack fullHistory) = 100 \<and> historyIndex fullHistory = 100 - 1 - 0
   \<and> length (historyStack (pushHistory (SetFrameName 0 ''a'' ''b'') fullHistory)) = 100
   \<and> (100 :: nat) \<noteq> 100 - 0 + 1"
  by (simp add: fullHistory_def pushHistory_def createDefaultState_def Let_def)

section \<open>Locked layers\<close>

text \<open>
  C10. In layered mode, when the active layer is locked, \<open>setCell\<close> returns false,
  \<open>setCells\<close> returns 0 and \<open>clearCanvas\<close> returns, and each leaves the whole state as it
  was: the grid of every content frame, the history stack and the history cursor.
\<close>

theorem locked_layer_blocks_edits:
  assumes "isLayerMode s" and "getActiveLayer s = Some layer" and "locked layer"
  shows "setCell x y cell recordHistory s = (Normal False, s)
       \<and> setCells cells recordHistory s = (Normal 0, s)
       \<and> clearCanvas recordHistory s = (Normal (), s)"
  using assms by (simp add: setCell_def setCells_def clearCanvas_def)

lemma lockedDoc_layer:
  "isLayerMode lockedDoc \<and> map_option locked (getActiveLayer lockedDoc) = Some True"
  by (simp add: lockedDoc_def setLayerLocked_def addLayer_def createDefaultState_def allocData_def
      allocCf_def Let_def isLayerMode_def getActiveLayer_def)

theorem locked_layer_blocks_edits_witness:
  "isLayerMode lockedDoc \<and> map_option locked (getActiveLayer lockedDoc) = Some True
   \<and> setCell 0 0 cellX True lockedDoc = (Normal False, lockedDoc)
   \<and> setCells [(0, 0, cellX)] True lockedDoc = (Normal 0, lockedDoc)
   \<and> clearCanvas True lockedDoc = (Normal (), lockedDoc)"
proof -
  have a: "isLayerMode lockedDoc" and b: "map_option locked (getActiveLayer lockedDoc) = Some True"
    using lockedDoc_layer by simp_all
  from b obtain layer where l: "getActiveLayer lockedDoc = Some layer" "locked layer" by auto
  show ?thesis
    using locked_layer_blocks_edits [OF a l, of 0 0 cellX True "[(0, 0, cellX)]"] a b by simp
qed

section \<open>Keyframe interpolation\<close>

text \<open>
  C5. For a property track that holds exactly the keyframes (frame 0, value 0) and
  (frame 10, value 100), both with linear easing, the interpolated value is 50 at frame 5,
  0 at frame 0, 100 at frame 10 and 100 at frame 15.
\<close>

theorem interpolate_linear_ramp:
  assumes "keyframes track = [k0, k1]"
    and "kf_frame k0 = 0" "kf_value k0 = 0" "easing_type (easing k0) = Linear"
    and "kf_frame k1 = 10" "kf_value k1 = 100" "easing_type (easing k1) = Linear"
  shows "interpolatePropertyValue track 5 = 50
       \<and> interpolatePropertyValue track 0 = 0
       \<and> interpolatePropertyValue track 10 = 100
       \<and> interpolatePropertyValue track 15 = 100"
  using assms by (simp add: interpolatePropertyValue_def Let_def)

lemma rampTrack_keyframes:
  "keyframes rampTrack =
     [\<lparr>kf_id = ''kf1'', kf_frame = 0, kf_value = 0,
        easing = \<lparr>easing_type = Linear, x1 = None, y1 = None, x2 = None, y2 = None\<rparr>\<rparr>,
      \<lparr>kf_id = ''kf2'', kf_frame = 10, kf_value = 100,
        easing = \<lparr>easing_type = Linear, x1 = None, y1 = None, x2 = None, y2 = None\<rparr>\<rparr>]"
  by (simp add: rampTrack_def rampDoc_def addKeyframe_def addPropertyTrack_def putKeyframe_def
      addLayer_def createDefaultState_def allocData_def allocCf_def Let_def)

text \<open>The track that two calls of \<open>addKeyframe\<close> build on a new layer.\<close>

theorem interpolate_linear_ramp_witness:
  "interpolatePropertyValue rampTrack 5 = 50
   \<and> interpolatePropertyValue rampTrack 0 = 0
   \<and> interpolatePropertyValue rampTrack 10 = 100
   \<and> interpolatePropertyValue rampTrack 15 = 100"
  using interpolate_linear_ramp [OF rampTrack_keyframes] by simp

section \<open>Content frames: the overlap check\<close>

text \<open>
  C1, at a call that breaks it. On a new layer, whose default content frame covers
  \<open>[0, 1)\<close>, the call \<open>addContentFrame(layer, 0, 0)\<close> passes the overlap test, which is
  made on the duration 0 as given, and stores a content frame of duration
  \<open>Math.max(1, 0) = 1\<close>: the layer then holds two content frames that both cover \<open>[0, 1)\<close>.
\<close>

theorem addContentFrame_zero_duration_overlaps:
  "fst overlapDoc = Some 1
   \<and> map (\<lambda>cf. (cf_id cf, startFrame cf, durationFrames cf)) (layerContentFrames (snd overlapDoc) ''L1'')
       = [(''cf1'', 0, 1), (''cf2'', 0, 1)]
   \<and> overlap (layerContentFrames (snd overlapDoc) ''L1'' ! 0) (layerContentFrames (snd overlapDoc) ''L1'' ! 1)"
  by (simp add: overlapDoc_def addContentFrame_def addLayer_def createDefaultState_def allocData_def
      allocCf_def Let_def layerContentFrames_def overlap_def sortContentFrames_def extendTimeline_def)

section \<open>Undo after a fill\<close>

text \<open>
  C2, at a sequence that breaks it. On a new 4 by 4 project, whose only grid is empty,
  \<open>fillRegion(0, 0, X)\<close> and then \<open>clearCanvas()\<close> are both recorded (the cursor is 1).
  After two calls of \<open>undo\<close> the cursor is -1, and the grid holds the 16 cells of the
  fill instead of being empty: the undo closure of the fill restores the grid object it
  captured, which \<open>clearCanvas\<close> and its undo have replaced in \<open>frame.data\<close>.
\<close>

theorem undo_after_fill_and_clear:
  "observe smallProject = (- 1, 4, 4, [0], Normal EMPTY_CELL)
   \<and> map_option observe
       (runOps [OpFillRegion 0 0 cellX noOptions True, OpClearCanvas True] smallProject)
     = Some (1, 4, 4, [0], Normal EMPTY_CELL)
   \<and> map_option observe
       (runOps [OpFillRegion 0 0 cellX noOptions True, OpClearCanvas True, OpUndo, OpUndo] smallProject)
     = Some (- 1, 4, 4, [16], Normal cellX)"
  by code_simp

text \<open>A second sequence that \<open>undo\<close> does not revert: \<open>addFrame\<close> with an index beyond the
  end appends the frame, and its undo closure, \<open>frames.splice(5, 1)\<close>, removes nothing, so
  the document keeps two frames.\<close>

lemma undo_after_addFrame_beyond_end:
  "observe (createDefaultState ''f1'') = (- 1, 80, 24, [0], Normal EMPTY_CELL)
   \<and> map_option observe
       (runOps [OpAddFrame (Some 5) None None True ''f2'', OpUndo] (createDefaultState ''f1''))
     = Some (- 1, 80, 24, [0, 0], Normal EMPTY_CELL)"
  by code_simp

section \<open>Flood fill: termination\<close>

lemma finite_inBounds: "finite {k. isInBounds (fst k) (snd k) w h}"
proof -
  have "{k. isInBounds (fst k) (snd k) w h} \<subseteq> {0..<w} \<times> {0..<h}"
    by (auto simp: isInBounds_def)
  then show ?thesis by (rule finite_subset) simp
qed

text \<open>Marking an in-bounds cell that was not visited leaves fewer unvisited in-bounds
  cells.\<close>

lemma unvisited_decreases:
  assumes "isInBounds x y w h" and "createCellKey x y \<notin> set visited"
  shows "card ({k. isInBounds (fst k) (snd k) w h} - set (setAdd (createCellKey x y) visited))
       < card ({k. isInBounds (fst k) (snd k) w h} - set visited)"
proof -
  let ?B = "{k. isInBounds (fst k) (snd k) w h}"
  have "(x, y) \<in> ?B - set visited" using assms by (simp add: createCellKey_def)
  moreover have "(x, y) \<notin> ?B - set (setAdd (createCellKey x y) visited)"
    by (simp add: setAdd_def createCellKey_def)
  moreover have "?B - set (setAdd (createCellKey x y) visited) \<subseteq> ?B - set visited"
    by (auto simp: setAdd_def)
  ultimately have "?B - set (setAdd (createCellKey x y) visited) \<subset> ?B - set visited" by blast
  moreover have "finite (?B - set visited)" using finite_inBounds by simp
  ultimately show ?thesis by (rule psubset_card_mono [rotated])
qed

text \<open>The loop ends from every queue and every visited set: each iteration either marks
  a new in-bounds cell as visited, or leaves the visited set and shortens the queue.\<close>

lemma floodLoop_returns:
  "\<exists>r. floodLoop w h getc m queue visited cellsToFill = Some r"
proof -
  have "wf (measures [\<lambda>(q, v). card ({k. isInBounds (fst k) (snd k) w h} - set v), \<lambda>(q, v). length q])"
    by (rule wf_measures)
  then show ?thesis
  proof (induction "(queue, visited)" arbitrary: queue visited cellsToFill rule: wf_induct_rule)
    case less
    show ?case
    proof (cases queue)
      case Nil
      then show ?thesis by (subst floodLoop.simps) simp
    next
      case (Cons p rest)
      obtain x y where p: "p = (x, y)" by (cases p)
      have shorter: "\<And>c. \<exists>r. floodLoop w h getc m rest visited c = Some r"
        by (rule less) (simp add: Cons)
      show ?thesis
      proof (cases "createCellKey x y \<in> set visited \<or> \<not> isInBounds x y w h")
        case True
        then show ?thesis using shorter [of cellsToFill]
          by (subst floodLoop.simps) (auto simp: Cons p)
      next
        case False
        then have inb: "isInBounds x y w h" and new: "createCellKey x y \<notin> set visited" by simp_all
        have fewer: "\<And>q c. \<exists>r. floodLoop w h getc m q (setAdd (createCellKey x y) visited) c = Some r"
          by (rule less) (simp add: unvisited_decreases [OF inb new])
        show ?thesis
        proof (cases "getc x y")
          case (Throws e)
          then show ?thesis using inb new by (subst floodLoop.simps) (simp add: Cons p)
        next
          case (Normal currentCell)
          then show ?thesis using inb new fewer
            by (subst floodLoop.simps) (simp add: Cons p)
        qed
      qed
    qed
  qed
qed

lemma fillRegion_returns:
  "\<exists>r. fillRegion startX startY fillCell options recordHistory s = Some r"
proof -
  obtain r where "floodLoop (width s) (height s) (\<lambda>x y. getCell x y s)
      (matches (case matchChar options of None \<Rightarrow> False | Some b \<Rightarrow> b)
               (case matchColor options of None \<Rightarrow> False | Some b \<Rightarrow> b)
               (case matchBgColor options of None \<Rightarrow> False | Some b \<Rightarrow> b)
               (case getCell startX startY s of Normal c \<Rightarrow> c | Throws e \<Rightarrow> EMPTY_CELL))
      [(startX, startY)] [] [] = Some r"
    using floodLoop_returns by blast
  then show ?thesis
    by (auto simp: fillRegion_def Let_def split: completion.splits option.splits)
qed

text \<open>
  C8. For every canvas size (in particular every width up to 200 and height up to 100),
  every seed coordinate, every grid contents and every combination of options,
  \<open>fillRegion\<close> returns: the breadth-first traversal of the contiguous branch ends.
\<close>

theorem fillRegion_terminates:
  "\<exists>r. fillRegion startX startY fillCell options recordHistory s = Some r"
  by (rule fillRegion_returns)

section \<open>Flood fill: containment\<close>



section \<open>Flat round trip\<close>

text \<open>Loading the frames changes only the store.\<close>

lemma loadFrames_fields:
  "loadFrames fs i s = (frs, s1) \<Longrightarrow>
     name s1 = name s \<and> description s1 = description s \<and> filePath s1 = filePath s
     \<and> width s1 = width s \<and> height s1 = height s
     \<and> backgroundColor s1 = backgroundColor s \<and> showGrid s1 = showGrid s
     \<and> toolState s1 = toolState s \<and> typography s1 = typography s"
proof (induction fs arbitrary: i s frs s1)
  case Nil
  then show ?case by simp
next
  case (Cons f rest)
  obtain frs2 where c: "loadFrames rest (Suc i)
      (snd (allocFrame \<lparr>frame_id = sf_id f,
                 frame_name = withDefault (''Frame '' @ digits (i + 1)) (sf_name f),
                 frame_duration = withDefault DEFAULT_FRAME_DURATION (sf_duration f),
                 frame_data = Some (fst (allocData (withDefault [] (sf_data f)) s))\<rparr>
              (snd (allocData (withDefault [] (sf_data f)) s)))) = (frs2, s1)"
    using Cons.prems by (auto split: prod.splits)
  show ?case using Cons.IH [OF c] by (simp add: allocData_def allocFrame_def)
qed

lemma loadFrames_keeps:
  "loadFrames fs i s = (frs, s1) \<Longrightarrow>
     nextFrame s \<le> nextFrame s1 \<and> nextData s \<le> nextData s1
     \<and> (\<forall>r < nextFrame s. frameHeap s1 r = frameHeap s r)
     \<and> (\<forall>r < nextData s. dataHeap s1 r = dataHeap s r)"
proof (induction fs arbitrary: i s frs s1)
  case Nil
  then show ?case by simp
next
  case (Cons f rest)
  obtain frs2 where c: "loadFrames rest (Suc i)
      (snd (allocFrame \<lparr>frame_id = sf_id f,
                 frame_name = withDefault (''Frame '' @ digits (i + 1)) (sf_name f),
                 frame_duration = withDefault DEFAULT_FRAME_DURATION (sf_duration f),
                 frame_data = Some (fst (allocData (withDefault [] (sf_data f)) s))\<rparr>
              (snd (allocData (withDefault [] (sf_data f)) s)))) = (frs2, s1)"
    using Cons.prems by (auto split: prod.splits)
  show ?case using Cons.IH [OF c] by (simp add: allocData_def allocFrame_def)
qed

lemma loadFrames_reads_back:
  "loadFrames fs i s = (frs, s1) \<Longrightarrow> list_all explicitFrame fs \<Longrightarrow> map (frameToSession s1) frs = fs"
proof (induction fs arbitrary: i s frs s1)
  case Nil
  then show ?case by simp
next
  case (Cons f rest)
  let ?d = "nextData s"
  let ?s0 = "snd (allocData (withDefault [] (sf_data f)) s)"
  let ?F = "\<lparr>frame_id = sf_id f,
                 frame_name = withDefault (''Frame '' @ digits (i + 1)) (sf_name f),
                 frame_duration = withDefault DEFAULT_FRAME_DURATION (sf_duration f),
                 frame_data = Some ?d\<rparr>"
  let ?sa = "snd (allocFrame ?F ?s0)"
  obtain frs2 where c: "loadFrames rest (Suc i) ?sa = (frs2, s1)" and frs: "frs = nextFrame s # frs2"
    using Cons.prems(1) by (auto simp: allocData_def allocFrame_def split: prod.splits)
  have keep: "frameHeap s1 (nextFrame s) = ?F" "dataHeap s1 ?d = withDefault [] (sf_data f)"
    using loadFrames_keeps [OF c] by (simp_all add: allocData_def allocFrame_def)
  from Cons.prems(2) have ex: "explicitFrame f" and exr: "list_all explicitFrame rest" by simp_all
  have "frameToSession s1 (nextFrame s) = f"
    using ex keep by (cases f) (auto simp: frameToSession_def explicitFrame_def withDefault_def)
  with Cons.IH [OF c exr] frs show ?case by simp
qed


lemma parseTools_explicit:
  "parseTools v = Some v1 \<Longrightarrow> explicitTools v \<Longrightarrow> v1 = v"
  by (cases v) (auto simp: parseTools_def explicitTools_def withDefault_def Let_def split: if_splits)

lemma parseTypography_explicit:
  "parseTypography v = Some v1 \<Longrightarrow> explicitTypography v \<Longrightarrow> v1 = v"
  by (cases v) (auto simp: parseTypography_def explicitTypography_def withDefault_def Let_def split: if_splits)

lemma parse_explicit:
  assumes "SessionDataSchema_parse doc \<noteq> None" and "explicitDocument doc"
  shows "SessionDataSchema_parse doc = Some doc"
proof -
  obtain tv where tv: "sd_tools doc = Some tv" "explicitTools tv"
    using assms(2) by (auto simp: explicitDocument_def split: option.splits)
  obtain yv where yv: "sd_typography doc = Some yv" "explicitTypography yv"
    using assms(2) by (auto simp: explicitDocument_def split: option.splits)
  have ui: "sd_ui doc = None" and ver: "sd_version doc = Some ''1.0.0''"
    and grid: "sc_showGrid (sd_canvas doc) \<noteq> None"
    using assms(2) by (simp_all add: explicitDocument_def)
  from assms(1) obtain tv1 yv1 where p: "parseTools tv = Some tv1" "parseTypography yv = Some yv1"
    by (auto simp: SessionDataSchema_parse_def Let_def parseOptional_def tv yv split: if_splits option.splits)
  have eq: "tv1 = tv" "yv1 = yv"
    using p tv yv parseTools_explicit parseTypography_explicit by blast+
  have cv: "(sd_canvas doc)\<lparr>sc_showGrid := Some (withDefault True (sc_showGrid (sd_canvas doc)))\<rparr> = sd_canvas doc"
    using grid by (intro SessionCanvas.equality) (auto simp: withDefault_def)
  have "SessionDataSchema_parse doc =
      Some (doc\<lparr>sd_version := Some (withDefault ''1.0.0'' (sd_version doc)),
                sd_canvas := (sd_canvas doc)\<lparr>sc_showGrid := Some (withDefault True (sc_showGrid (sd_canvas doc)))\<rparr>,
                sd_tools := Some tv1, sd_typography := Some yv1, sd_ui := None\<rparr>)"
    using assms(1)
    by (simp add: SessionDataSchema_parse_def Let_def parseOptional_def tv yv ui p split: if_splits)
  also have "doc\<lparr>sd_version := Some (withDefault ''1.0.0'' (sd_version doc)),
                sd_canvas := (sd_canvas doc)\<lparr>sc_showGrid := Some (withDefault True (sc_showGrid (sd_canvas doc)))\<rparr>,
                sd_tools := Some tv1, sd_typography := Some yv1, sd_ui := None\<rparr> = doc"
    unfolding cv by (intro SessionData.equality) (simp_all add: ver tv yv ui eq withDefault_def)
  finally show ?thesis .
qed

text \<open>
  C4 (as amended). For every flat document that validates against the flat session schema and
  states every property that the serializer writes and none that it leaves out
  (\<open>explicitDocument\<close>), \<open>loadFromSessionData\<close> returns and \<open>toSessionData\<close> then yields
  a document equal to the input.
\<close>

theorem flat_round_trip:
  assumes valid: "SessionDataSchema_parse doc \<noteq> None" and ex: "explicitDocument doc"
  shows "fst (loadFromSessionData doc filePath0 newId newId2 s) = Normal ()
       \<and> toSessionData (snd (loadFromSessionData doc filePath0 newId newId2 s)) = doc"
proof -
  let ?s0 = "(createDefaultState newId)
                     \<lparr>name := withDefault ''Untitled Project'' (sd_name doc),
                      description := withDefault '''' (sd_description doc),
                      filePath := filePath0,
                      width := sc_width (sd_canvas doc),
                      height := sc_height (sd_canvas doc),
                      backgroundColor := sc_canvasBackgroundColor (sd_canvas doc),
                      showGrid := withDefault True (sc_showGrid (sd_canvas doc))\<rparr>"
  obtain frs s1 where lf: "loadFrames (sa_frames (sd_animation doc)) 0 ?s0 = (frs, s1)" by fastforce
  have exf: "list_all explicitFrame (sa_frames (sd_animation doc))" and ne: "sa_frames (sd_animation doc) \<noteq> []"
    using ex by (simp_all add: explicitDocument_def)
  have rb: "map (frameToSession s1) frs = sa_frames (sd_animation doc)"
    by (rule loadFrames_reads_back [OF lf exf])
  then have len: "length frs = length (sa_frames (sd_animation doc))" by (metis length_map)
  with ne have frs_ne: "length frs \<noteq> 0" by simp
  note fields = loadFrames_fields [OF lf]
  obtain tv where tv: "sd_tools doc = Some tv" "explicitTools tv"
    using ex by (auto simp: explicitDocument_def split: option.splits)
  obtain yv where yv: "sd_typography doc = Some yv" "explicitTypography yv"
    using ex by (auto simp: explicitDocument_def split: option.splits)
  have load: "loadFromSessionData doc filePath0 newId newId2 s =
     (Normal (), s1\<lparr>frames := frs,
                   currentFrameIndex := min (sa_currentFrameIndex (sd_animation doc)) (int (length frs) - 1),
                   frameRate := withDefault 12 (sa_frameRate (sd_animation doc)),
                   looping := withDefault True (sa_looping (sd_animation doc)),
                   toolState := mergeTools (toolState s1) tv,
                   typography := mergeTypography (typography s1) yv,
                   historyStack := [], historyIndex := - 1, isDirty := False\<rparr>)"
    using frs_ne by (simp add: loadFromSessionData_def parse_explicit [OF valid ex] lf Let_def tv yv)
  define S where "S = snd (loadFromSessionData doc filePath0 newId newId2 s)"
  have heaps: "frameHeap S = frameHeap s1" "dataHeap S = dataHeap s1" "frames S = frs"
    and meta: "name S = withDefault ''Untitled Project'' (sd_name doc)"
      "description S = withDefault '''' (sd_description doc)"
      "width S = sc_width (sd_canvas doc)" "height S = sc_height (sd_canvas doc)"
      "backgroundColor S = sc_canvasBackgroundColor (sd_canvas doc)"
      "showGrid S = withDefault True (sc_showGrid (sd_canvas doc))"
    and anim: "currentFrameIndex S = min (sa_currentFrameIndex (sd_animation doc)) (int (length frs) - 1)"
      "frameRate S = withDefault 12 (sa_frameRate (sd_animation doc))"
      "looping S = withDefault True (sa_looping (sd_animation doc))"
    and sets: "toolState S = mergeTools (toolState s1) tv" "typography S = mergeTypography (typography s1) yv"
    by (simp_all add: S_def load fields)
  have "frameToSession S = frameToSession s1"
    by (simp add: frameToSession_def fun_eq_iff heaps)
  then have f_frames: "map (frameToSession S) (frames S) = sa_frames (sd_animation doc)"
    using rb by (simp add: heaps)
  have f_version: "sd_version (toSessionData S) = sd_version doc"
    using ex by (simp add: toSessionData_def explicitDocument_def)
  have f_name: "sd_name (toSessionData S) = sd_name doc"
    using ex by (cases "sd_name doc") (auto simp: toSessionData_def meta explicitDocument_def withDefault_def)
  have f_description: "sd_description (toSessionData S) = sd_description doc"
    using ex by (cases "sd_description doc") (auto simp: toSessionData_def meta explicitDocument_def withDefault_def)
  have f_canvas: "sd_canvas (toSessionData S) = sd_canvas doc"
    using ex by (intro SessionCanvas.equality) (auto simp: toSessionData_def meta explicitDocument_def withDefault_def)
  have f_animation: "sd_animation (toSessionData S) = sd_animation doc"
    using ex len by (intro SessionAnimation.equality)
      (auto simp: toSessionData_def f_frames anim explicitDocument_def withDefault_def)
  have f_tools: "sd_tools (toSessionData S) = sd_tools doc"
    unfolding tv using tv(2)
    by (auto simp: toSessionData_def sets mergeTools_def explicitTools_def withDefault_def
        intro!: SessionTools.equality)
  have f_typography: "sd_typography (toSessionData S) = sd_typography doc"
    unfolding yv using yv(2)
    by (auto simp: toSessionData_def sets mergeTypography_def explicitTypography_def withDefault_def
        intro!: SessionTypography.equality)
  have f_ui: "sd_ui (toSessionData S) = sd_ui doc"
    using ex by (simp add: toSessionData_def explicitDocument_def)
  have "toSessionData S = doc"
    by (intro SessionData.equality f_version f_name f_description f_canvas f_animation f_tools
        f_typography f_ui) simp
  then show ?thesis by (simp add: load S_def)
qed

theorem flat_round_trip_witness:
  "SessionDataSchema_parse fullDoc \<noteq> None \<and> explicitDocument fullDoc
   \<and> toSessionData (snd (loadFromSessionData fullDoc None ''a'' ''b'' (createDefaultState ''x''))) = fullDoc"
proof -
  have v: "SessionDataSchema_parse fullDoc \<noteq> None" by code_simp
  have e: "explicitDocument fullDoc" by code_simp
  show ?thesis
    using flat_round_trip [OF v e, of None "''a''" "''b''" "createDefaultState ''x''"] v e by simp
qed

text \<open>C4 as stated fails for a valid document with a \<open>ui\<close> object, a property that the
  flat schema declares: the serialized document has none.\<close>

theorem flat_round_trip_drops_ui:
  "SessionDataSchema_parse uiDoc \<noteq> None
   \<and> toSessionData (snd (loadFromSessionData uiDoc None ''a'' ''b'' (createDefaultState ''x''))) \<noteq> uiDoc"
proof -
  have v: "SessionDataSchema_parse uiDoc \<noteq> None" by code_simp
  have "sd_ui (toSessionData (snd (loadFromSessionData uiDoc None ''a'' ''b'' (createDefaultState ''x'')))) = None"
    by (simp add: toSessionData_def)
  moreover have "sd_ui uiDoc \<noteq> None" by (simp add: uiDoc_def)
  ultimately show ?thesis using v by auto
qed

section \<open>Sparsity: the invariant\<close>



lemma sparse_Nil [simp]: "sparse []"
  by (simp add: sparse_def)







text \<open>The invariant: \<open>sparseState\<close> is kept by every step of every operation.\<close>

lemma sparseState_cong:
  "dataHeap s1 = dataHeap s \<Longrightarrow> historyStack s1 = historyStack s \<Longrightarrow> sparseState s1 = sparseState s"
  by (simp add: sparseState_def)

lemma dataHeap_pushHistory [simp]: "dataHeap (pushHistory e s) = dataHeap s"
  by (simp add: pushHistory_def Let_def)






lemma sparseState_setFrameData [simp]:
  "sparseState (setFrameData fr v s) = sparseState s"
  by (simp add: sparseState_def setFrameData_def)


lemma sparseState_allocFrame [simp]:
  "sparseState (snd (allocFrame f s)) = sparseState s"
  by (simp add: sparseState_def allocFrame_def)

lemma sparseState_allocCf [simp]:
  "sparseState (snd (allocCf f s)) = sparseState s"
  by (simp add: sparseState_def allocCf_def)

lemma sparseState_updates [simp]:
  "sparseState (isDirty_update f1 s) = sparseState s"
  "sparseState (frames_update f2 s) = sparseState s"
  "sparseState (currentFrameIndex_update f3 s) = sparseState s"
  "sparseState (width_update f4 s) = sparseState s"
  "sparseState (height_update f5 s) = sparseState s"
  "sparseState (frameHeap_update f6 s) = sparseState s"
  "sparseState (cfHeap_update f7 s) = sparseState s"
  "sparseState (layers_update f8 s) = sparseState s"
  "sparseState (activeLayerId_update f9 s) = sparseState s"
  "sparseState (timelineConfig_update f10 s) = sparseState s"
  "sparseState (historyIndex_update f11 s) = sparseState s"
  "sparseState (name_update f12 s) = sparseState s"
  "sparseState (frameRate_update f13 s) = sparseState s"
  "sparseState (looping_update f14 s) = sparseState s"
  "sparseState (toolState_update f15 s) = sparseState s"
  "sparseState (typography_update f16 s) = sparseState s"
  "sparseState (description_update f17 s) = sparseState s"
  "sparseState (filePath_update f18 s) = sparseState s"
  "sparseState (backgroundColor_update f19 s) = sparseState s"
  "sparseState (showGrid_update f20 s) = sparseState s"
  "sparseState (layerGroups_update f21 s) = sparseState s"
  by (simp_all add: sparseState_def)

lemma sparseState_heap: "sparseState s \<Longrightarrow> sparse (dataHeap s d)"
  by (simp add: sparseState_def)

lemma sparseState_spread: "sparseState s \<Longrightarrow> sparse (spreadData s v)"
  by (cases v) (simp_all add: spreadData_def sparseState_heap)





lemma pushHistory_fields [simp]:
  "nextData (pushHistory e s) = nextData s"
  "nextFrame (pushHistory e s) = nextFrame s"
  "frames (pushHistory e s) = frames s"
  "frameHeap (pushHistory e s) = frameHeap s"
  "cfHeap (pushHistory e s) = cfHeap s"
  "layers (pushHistory e s) = layers s"
  "width (pushHistory e s) = width s"
  "height (pushHistory e s) = height s"
  "currentFrameIndex (pushHistory e s) = currentFrameIndex s"
  "activeLayerId (pushHistory e s) = activeLayerId s"
  by (simp_all add: pushHistory_def Let_def)
















lemma restoreFrameData_sparse [simp]:
  "sparseState (restoreFrameData frs prev i s) = sparseState s"
  by (induction frs prev i s rule: restoreFrameData.induct) simp_all








lemma sparseState_extendTimeline [simp]: "sparseState (extendTimeline e s) = sparseState s"
  by (simp add: extendTimeline_def)

























section \<open>Content frames: calls with a duration of at least 1\<close>

text \<open>
  Apart from the calls with a duration below 1, the overlap check does what it is meant
  to: a call whose interval overlaps a sibling is rejected and leaves the state as it
  was, and an accepted call with a duration of at least 1 keeps the content frames of
  the layer distinct and pairwise disjoint. The identifier that the generator returns is
  taken to be new on the layer.
\<close>

lemma find_updateFirst:
  assumes "\<And>x. P x \<Longrightarrow> P (f x)"
  shows "find P (updateFirst P f xs) = map_option f (find P xs)"
  using assms by (induction xs) auto

lemma addContentFrame_rejects_overlap:
  assumes "find (\<lambda>l. layer_id l = layerId) (layers s) = Some layer"
    and "cf \<in> set (contentFrames layer)"
    and "startFrame0 < startFrame (cfHeap s cf) + durationFrames (cfHeap s cf)"
    and "startFrame0 + durationFrames0 > startFrame (cfHeap s cf)"
  shows "addContentFrame layerId startFrame0 durationFrames0 data0 newId s = (None, s)"
proof -
  have "list_ex (\<lambda>cf. startFrame0 < startFrame (cfHeap s cf) + durationFrames (cfHeap s cf)
                               \<and> startFrame0 + durationFrames0 > startFrame (cfHeap s cf)) (contentFrames layer)"
    using assms(2-4) by (auto simp: list_ex_iff)
  then show ?thesis by (simp add: addContentFrame_def assms(1) Let_def)
qed

lemma addContentFrame_keeps_disjoint:
  assumes layer: "find (\<lambda>l. layer_id l = layerId) (layers s) = Some layer"
    and ok: "layerOk s layer"
    and dur: "durationFrames0 \<ge> 1"
    and fresh: "newId \<notin> (\<lambda>a. cf_id (cfHeap s a)) ` set (contentFrames layer)"
  shows "\<exists>layer1. find (\<lambda>l. layer_id l = layerId)
                     (layers (snd (addContentFrame layerId startFrame0 durationFrames0 data0 newId s))) = Some layer1
               \<and> layerOk (snd (addContentFrame layerId startFrame0 durationFrames0 data0 newId s)) layer1"
proof (cases "list_ex (\<lambda>cf. startFrame0 < startFrame (cfHeap s cf) + durationFrames (cfHeap s cf)
                               \<and> startFrame0 + durationFrames0 > startFrame (cfHeap s cf)) (contentFrames layer)")
  case True
  then show ?thesis using layer ok by (simp add: addContentFrame_def Let_def)
next
  case False
  let ?new = "nextCf s"
  let ?cf = "\<lparr>cf_id = newId, cf_name = ''Frame '' @ digits (length (contentFrames layer) + 1),
              startFrame = startFrame0, durationFrames = max 1 durationFrames0,
              cf_data = nextData s, hidden = None\<rparr>"
  let ?heap = "(cfHeap s)(?new := ?cf)"
  define s1 where "s1 = snd (addContentFrame layerId startFrame0 durationFrames0 data0 newId s)"
  define refs where "refs = sort_key (\<lambda>cf. startFrame (?heap cf)) (contentFrames layer @ [?new])"
  have heap: "cfHeap s1 = ?heap" and nxt: "nextCf s1 = Suc ?new"
    and lay: "layers s1 = updateFirst (\<lambda>l. layer_id l = layerId) (\<lambda>l. l\<lparr>contentFrames := 
          sort_key (\<lambda>cf. startFrame (?heap cf)) (contentFrames l @ [?new])\<rparr>) (layers s)"
    using False layer
    by (simp_all add: s1_def addContentFrame_def Let_def allocData_def allocCf_def extendTimeline_def
        sortContentFrames_def)
  have found: "find (\<lambda>l. layer_id l = layerId) (layers s1) = Some (layer\<lparr>contentFrames := refs\<rparr>)"
    unfolding lay by (subst find_updateFirst) (simp_all add: layer refs_def)
  have old: "\<And>a. a \<in> set (contentFrames layer) \<Longrightarrow> a < ?new \<and> ?heap a = cfHeap s a"
    using ok by (auto simp: layerOk_def)
  have set_refs: "set refs = insert ?new (set (contentFrames layer))" by (simp add: refs_def)
  have new_notin: "?new \<notin> set (contentFrames layer)" using old by blast
  have d1: "distinct refs" using ok new_notin by (simp add: refs_def layerOk_def)
  have d2: "\<forall>a\<in>set refs. a < nextCf s1" using old by (auto simp: set_refs nxt less_Suc_eq)
  define g where "g = (\<lambda>a. cf_id (?heap a))"
  have ids: "map g (contentFrames layer @ [?new])
              = map (\<lambda>a. cf_id (cfHeap s a)) (contentFrames layer) @ [newId]"
    using old by (simp add: g_def)
  have "distinct (map g (contentFrames layer @ [?new]))"
    unfolding ids using ok fresh by (auto simp: layerOk_def)
  then have "inj_on g (set (contentFrames layer @ [?new]))"
    by (simp only: distinct_map)
  then have "inj_on g (set refs)" by (simp add: set_refs)
  with d1 have "distinct (map g refs)" by (simp only: distinct_map simp_thms)
  then have d3: "distinct (map (\<lambda>a. cf_id (cfHeap s1 a)) refs)"
    by (simp only: g_def heap)
  have no: "\<And>a. a \<in> set (contentFrames layer) \<Longrightarrow> \<not> overlap ?cf (cfHeap s a) \<and> \<not> overlap (cfHeap s a) ?cf"
    using False dur by (auto simp: list_ex_iff overlap_def)
  have d4: "disjointFrames s1 refs"
    unfolding disjointFrames_def heap set_refs
    using ok old no by (auto simp: layerOk_def disjointFrames_def)
  show ?thesis
    unfolding s1_def [symmetric] using found d1 d2 d3 d4 by (simp add: layerOk_def)
qed


lemma updateContentFrameTiming_rejects_overlap:
  assumes "find (\<lambda>l. layer_id l = layerId) (layers s) = Some layer"
    and "other \<in> set (contentFrames layer)"
    and "cf_id (cfHeap s other) \<noteq> contentFrameId"
    and "startFrame0 < startFrame (cfHeap s other) + durationFrames (cfHeap s other)"
    and "startFrame0 + durationFrames0 > startFrame (cfHeap s other)"
  shows "updateContentFrameTiming layerId contentFrameId startFrame0 durationFrames0 s = (False, s)"
proof -
  have "list_ex (\<lambda>other. cf_id (cfHeap s other) \<noteq> contentFrameId
                   \<and> startFrame0 < startFrame (cfHeap s other) + durationFrames (cfHeap s other)
                   \<and> startFrame0 + durationFrames0 > startFrame (cfHeap s other)) (contentFrames layer)"
    using assms(2-5) by (auto simp: list_ex_iff)
  then show ?thesis
    by (simp add: updateContentFrameTiming_def assms(1) Let_def split: option.splits)
qed

lemma updateContentFrameTiming_keeps_disjoint:
  assumes layer: "find (\<lambda>l. layer_id l = layerId) (layers s) = Some layer"
    and ok: "layerOk s layer"
    and dur: "durationFrames0 \<ge> 1"
  shows "\<exists>layer1. find (\<lambda>l. layer_id l = layerId)
                     (layers (snd (updateContentFrameTiming layerId contentFrameId startFrame0 durationFrames0 s)))
                   = Some layer1
               \<and> layerOk (snd (updateContentFrameTiming layerId contentFrameId startFrame0 durationFrames0 s)) layer1"
proof (cases "find (\<lambda>cf. cf_id (cfHeap s cf) = contentFrameId) (contentFrames layer)")
  case None
  then show ?thesis using layer ok by (simp add: updateContentFrameTiming_def)
next
  case (Some cf)
  show ?thesis
  proof (cases "list_ex (\<lambda>other. cf_id (cfHeap s other) \<noteq> contentFrameId
                   \<and> startFrame0 < startFrame (cfHeap s other) + durationFrames (cfHeap s other)
                   \<and> startFrame0 + durationFrames0 > startFrame (cfHeap s other)) (contentFrames layer)")
    case True
    then show ?thesis using layer ok Some by (simp add: updateContentFrameTiming_def Let_def)
  next
    case False
    let ?moved = "(cfHeap s cf)\<lparr>startFrame := startFrame0, durationFrames := max 1 durationFrames0\<rparr>"
    let ?heap = "(cfHeap s)(cf := ?moved)"
    define s1 where "s1 = snd (updateContentFrameTiming layerId contentFrameId startFrame0 durationFrames0 s)"
    define refs where "refs = sort_key (\<lambda>a. startFrame (?heap a)) (contentFrames layer)"
    have heap: "cfHeap s1 = ?heap" and nxt: "nextCf s1 = nextCf s"
      and lay: "layers s1 = updateFirst (\<lambda>l. layer_id l = layerId) (\<lambda>l. l\<lparr>contentFrames :=
            sort_key (\<lambda>a. startFrame (?heap a)) (contentFrames l)\<rparr>) (layers s)"
      using False layer Some
      by (simp_all add: s1_def updateContentFrameTiming_def Let_def extendTimeline_def sortContentFrames_def)
    have found: "find (\<lambda>l. layer_id l = layerId) (layers s1) = Some (layer\<lparr>contentFrames := refs\<rparr>)"
      unfolding lay by (subst find_updateFirst) (simp_all add: layer refs_def)
    have cf: "cf \<in> set (contentFrames layer)" "cf_id (cfHeap s cf) = contentFrameId"
      using Some by (auto simp: find_Some_iff)
    have set_refs: "set refs = set (contentFrames layer)" by (simp add: refs_def)
    have d1: "distinct refs" using ok by (simp add: refs_def layerOk_def)
    have d2: "\<forall>a\<in>set refs. a < nextCf s1" using ok by (simp add: set_refs nxt layerOk_def)
    have same_id: "(\<lambda>a. cf_id (?heap a)) = (\<lambda>a. cf_id (cfHeap s a))" by (auto simp: fun_eq_iff)
    have inj: "inj_on (\<lambda>a. cf_id (cfHeap s a)) (set (contentFrames layer))"
      using ok by (simp add: layerOk_def distinct_map)
    then have "inj_on (\<lambda>a. cf_id (cfHeap s a)) (set refs)" by (simp only: set_refs)
    with d1 have "distinct (map (\<lambda>a. cf_id (cfHeap s a)) refs)" by (simp only: distinct_map simp_thms)
    then have d3: "distinct (map (\<lambda>a. cf_id (cfHeap s1 a)) refs)" by (simp only: heap same_id)
    have others: "\<And>a. a \<in> set (contentFrames layer) \<Longrightarrow> a \<noteq> cf \<Longrightarrow> cf_id (cfHeap s a) \<noteq> contentFrameId"
      using inj cf by (auto simp: inj_on_def)
    have no: "\<And>a. a \<in> set (contentFrames layer) \<Longrightarrow> a \<noteq> cf
                \<Longrightarrow> \<not> overlap ?moved (cfHeap s a) \<and> \<not> overlap (cfHeap s a) ?moved"
      using False dur others by (auto simp: list_ex_iff overlap_def)
    have d4: "disjointFrames s1 refs"
      unfolding disjointFrames_def heap set_refs
      using ok no by (auto simp: layerOk_def disjointFrames_def)
    show ?thesis
      unfolding s1_def [symmetric] using found d1 d2 d3 d4 by (simp add: layerOk_def)
  qed
qed

text \<open>The layer that \<open>addLayer\<close> creates is well formed.\<close>

lemma addLayer_layerOk:
  "layerOk (snd (addLayer name0 newLayerId newCfId s)) (fst (addLayer name0 newLayerId newCfId s))"
  by (simp add: addLayer_def Let_def allocData_def allocCf_def layerOk_def disjointFrames_def)

end
